theory Spec2Isabelle
  imports Main "HOL-Library.Word"
begin

section \<open>MQTTSwitch: data model\<close>

text \<open>
  The repository holds two sketches of the same firmware: \<^verbatim>\<open>MQTTSwitch.ino\<close> (Bluetooth
  console only) and a second file with an access point, a web form and a \<^verbatim>\<open>setup\<close> console
  command added. Their \<^verbatim>\<open>ButtonChangeISR\<close>, \<^verbatim>\<open>MQTTCallback\<close>, \<^verbatim>\<open>tokenSplit\<close>,
  \<^verbatim>\<open>SettingsReadWriteHelper\<close>, \<^verbatim>\<open>PublishStatus\<close> and restart functions are the same text
  up to the name of the console flag (\<^verbatim>\<open>bluetooth_enable\<close> against \<^verbatim>\<open>config_enable\<close>). The
  model follows \<^verbatim>\<open>MQTTSwitch.ino\<close>; of the second file it has the parts the claims cite
  and that differ: \<^verbatim>\<open>SETTINGS_HEADER\<close> with the loading of the settings, the idle timeout
  of \<^verbatim>\<open>loop\<close>, and the handler of the web form, which writes the settings the callback
  reads.

  \<^verbatim>\<open>unsigned long\<close> is 32 bits wide on the ESP32 the sketch is written for.
\<close>

type_synonym u32 = "32 word"

text \<open>The expression \<^verbatim>\<open>now - since\<close> on \<^verbatim>\<open>unsigned long\<close>, as every interval check writes it.\<close>

definition elapsed :: "u32 \<Rightarrow> u32 \<Rightarrow> u32" where
  "elapsed now since = now - since"

datatype pin = BUTTON_PIN | POWER_PIN | STATUS_LED

text \<open>\<^verbatim>\<open>wl_status_t\<close> and the states of the MQTT client, with one more case for a value the
  \<^verbatim>\<open>switch\<close> statements send to \<^verbatim>\<open>default\<close>.\<close>

datatype wl_status_t =
    WL_NO_SHIELD | WL_IDLE_STATUS | WL_NO_SSID_AVAIL | WL_SCAN_COMPLETED
  | WL_CONNECTED | WL_CONNECT_FAILED | WL_CONNECTION_LOST | WL_DISCONNECTED
  | WL_OTHER nat

datatype mqtt_state =
    MQTT_CONNECTION_TIMEOUT | MQTT_CONNECTION_LOST | MQTT_CONNECT_FAILED
  | MQTT_DISCONNECTED | MQTT_CONNECTED | MQTT_CONNECT_BAD_PROTOCOL
  | MQTT_CONNECT_BAD_CLIENT_ID | MQTT_CONNECT_UNAVAILABLE
  | MQTT_CONNECT_BAD_CREDENTIALS | MQTT_CONNECT_UNAUTHORIZED
  | MQTT_OTHER int

text \<open>\<^verbatim>\<open>struct Settings\<close>. A \<^verbatim>\<open>char[n]\<close> field is modelled by the bytes of the array before
  its first NUL: the C string it holds, or all \<open>n\<close> bytes when the array holds no
  terminator.\<close>

record Settings =
  header :: "8 word"
  device_name :: string
  wifi_ssid :: string
  wifi_password :: string
  mqtt_server :: string
  mqtt_port :: "16 word"
  mqtt_id :: string
  mqtt_user :: string
  mqtt_password :: string
  mqtt_control_topic :: string
  mqtt_status_topic :: string

definition SETTINGS_HEADER :: "8 word" where
  "SETTINGS_HEADER = 0xD2"

text \<open>\<^verbatim>\<open>#define SETTINGS_HEADER 0xD3\<close> of the access-point sketch.\<close>

definition SETTINGS_HEADER_AP :: "8 word" where
  "SETTINGS_HEADER_AP = 0xD3"

definition DEBOUNCE_MILLIS :: u32 where
  "DEBOUNCE_MILLIS = 50"

text \<open>The member initialisers of \<^verbatim>\<open>struct Settings\<close>; the header byte is the sketch's
  \<^verbatim>\<open>SETTINGS_HEADER\<close>.\<close>

definition default_settings :: "8 word \<Rightarrow> Settings" where
  "default_settings magic =
     \<lparr> header = magic, device_name = ''MQTTSwitch'', wifi_ssid = [], wifi_password = [],
       mqtt_server = [], mqtt_port = 1883, mqtt_id = [], mqtt_user = [],
       mqtt_password = [], mqtt_control_topic = [], mqtt_status_topic = [] \<rparr>"

text \<open>Calls into the Arduino libraries, in the order the sketch makes them.\<close>

datatype effect =
    SerialBegin nat
  | SerialPrint string
  | SerialPrintln string
  | BtBegin string
  | BtEnd
  | BtPrint string
  | BtPrintln string
  | BtPrintlnInt int
  | PinModeInputPullup pin
  | PinModeOutput pin
  | AttachInterruptChange pin
  | DigitalWrite pin bool
  | WiFiSetHostname string
  | WiFiBegin string string
  | WiFiDisconnect
  | MqttSetServer string "16 word"
  | MqttConnect string "(string \<times> string) option" string nat bool string
  | MqttSubscribe string nat
  | MqttPublish string string bool
  | MqttDisconnect
  | MqttLoop
  | MqttSetSocketTimeout nat
  | MqttSetCallback
  | EepromBegin
  | EepromGet
  | EepromPut Settings
  | EepromCommit

text \<open>The globals of the sketch and the \<^verbatim>\<open>static\<close> locals of its functions.
  \<^verbatim>\<open>bluetooth_enable\<close> is \<^verbatim>\<open>config_enable\<close> in the access-point sketch;
  \<^verbatim>\<open>bluetooth_disconnected_millis\<close> exists only there and \<^verbatim>\<open>bluetooth_enable_millis\<close>
  only in \<^verbatim>\<open>MQTTSwitch.ino\<close>. \<^verbatim>\<open>status_led\<close> is the level of the LED pin, which
  \<^verbatim>\<open>loop\<close> reads back; \<^verbatim>\<open>trace\<close> collects the library calls.\<close>

record device =
  settings :: Settings
  power_enable :: bool
  bluetooth_enable :: bool
  bluetooth_enable_millis :: u32
  wifi_last_try :: u32
  mqtt_last_try :: u32
  button_press :: bool
  button_press_millis :: u32
  wifi_last_status :: wl_status_t
  mqtt_last_state :: mqtt_state
  loop_entered :: bool
  last_blink :: u32
  blink_delay :: u32
  last_power_enable :: bool
  last_bluetooth_enable :: bool
  last_bluetooth_has_client :: bool
  bluetooth_disconnected_millis :: u32
  status_led :: bool
  trace :: "effect list"

definition emit :: "effect list \<Rightarrow> device \<Rightarrow> device" where
  "emit es s = s\<lparr>trace := trace s @ es\<rparr>"

text \<open>The state after static initialisation: globals zeroed or set by their initialisers,
  the \<^verbatim>\<open>static\<close> locals of \<^verbatim>\<open>loop\<close> not yet initialised (\<^verbatim>\<open>loop_entered\<close> is false).\<close>

definition boot_device :: "8 word \<Rightarrow> device" where
  "boot_device magic =
     \<lparr> settings = default_settings magic, power_enable = False, bluetooth_enable = False,
       bluetooth_enable_millis = 0, wifi_last_try = 0, mqtt_last_try = 0,
       button_press = False, button_press_millis = 0,
       wifi_last_status = WL_NO_SHIELD, mqtt_last_state = MQTT_DISCONNECTED,
       loop_entered = False, last_blink = 0, blink_delay = 0,
       last_power_enable = False, last_bluetooth_enable = False,
       last_bluetooth_has_client = False, bluetooth_disconnected_millis = 0,
       status_led = False, trace = [] \<rparr>"

section \<open>The button interrupt handler\<close>

text \<open>\<^verbatim>\<open>ButtonChangeISR\<close>: \<open>now\<close> is what \<^verbatim>\<open>millis()\<close> returns, \<open>low\<close> says that
  \<^verbatim>\<open>digitalRead(BUTTON_PIN) == LOW\<close>.\<close>

definition ButtonChangeISR :: "u32 \<Rightarrow> bool \<Rightarrow> device \<Rightarrow> device" where
  "ButtonChangeISR now low s =
     (if low then
        (if \<not> button_press s
         then s\<lparr>button_press := True, button_press_millis := now\<rparr>
         else s)
      else
        (if button_press s then
           (let s1 = s\<lparr>button_press := False\<rparr>;
                hold_millis = elapsed now (button_press_millis s1)
            in if hold_millis \<ge> 5000 then
                 s1\<lparr>bluetooth_enable := \<not> bluetooth_enable s1\<rparr>
               else if hold_millis \<ge> DEBOUNCE_MILLIS then
                 (let s2 = s1\<lparr>power_enable := \<not> power_enable s1\<rparr>
                  in emit [DigitalWrite POWER_PIN (power_enable s2)] s2)
               else s1)
         else s))"

section \<open>C strings\<close>

text \<open>\<^verbatim>\<open>isspace\<close> and \<^verbatim>\<open>tolower\<close> in the C locale.\<close>

definition isspace :: "char \<Rightarrow> bool" where
  "isspace c = (c \<in> set [CHR '' '', CHR 0x09, CHR 0x0A, CHR 0x0B, CHR 0x0C, CHR 0x0D])"

definition tolower :: "char \<Rightarrow> char" where
  "tolower c =
     (case map_of (zip ''ABCDEFGHIJKLMNOPQRSTUVWXYZ'' ''abcdefghijklmnopqrstuvwxyz'') c of
        Some l \<Rightarrow> l
      | None \<Rightarrow> c)"

text \<open>The C string that starts at a buffer: its bytes before the first NUL.\<close>

definition cstr :: "char list \<Rightarrow> string" where
  "cstr bytes = takeWhile (\<lambda>c. c \<noteq> CHR 0x00) bytes"

text \<open>\<^verbatim>\<open>strncmp(a, b, n) == 0\<close>, \<^verbatim>\<open>strcmp(a, b) == 0\<close> and \<^verbatim>\<open>strcasecmp(a, b) == 0\<close> on
  C strings.\<close>

fun strncmp_eq :: "string \<Rightarrow> string \<Rightarrow> nat \<Rightarrow> bool" where
  "strncmp_eq a b 0 = True"
| "strncmp_eq [] [] (Suc n) = True"
| "strncmp_eq (x # a) (y # b) (Suc n) = (x = y \<and> strncmp_eq a b n)"
| "strncmp_eq a b (Suc n) = False"

definition strcmp_eq :: "string \<Rightarrow> string \<Rightarrow> bool" where
  "strcmp_eq a b = (a = b)"

definition strcasecmp_eq :: "string \<Rightarrow> string \<Rightarrow> bool" where
  "strcasecmp_eq a b = (map tolower a = map tolower b)"

text \<open>\<^verbatim>\<open>atoi\<close>: leading white space, an optional sign, then decimal digits; the value is
  clamped to the range of \<^verbatim>\<open>long\<close>, as \<^verbatim>\<open>strtol\<close> does.\<close>

definition isdigit :: "char \<Rightarrow> bool" where
  "isdigit c = (48 \<le> (of_char c :: nat) \<and> (of_char c :: nat) \<le> 57)"

fun digits_value :: "int \<Rightarrow> string \<Rightarrow> int" where
  "digits_value acc [] = acc"
| "digits_value acc (c # cs) =
     (if isdigit c then digits_value (acc * 10 + (of_char c - 48)) cs else acc)"

definition atoi :: "string \<Rightarrow> int" where
  "atoi str =
     (let t = dropWhile isspace str;
          v = (case t of
                 [] \<Rightarrow> 0
               | c # cs \<Rightarrow>
                   if c = CHR ''-'' then - digits_value 0 cs
                   else if c = CHR ''+'' then digits_value 0 cs
                   else digits_value 0 t)
      in max (- (2 ^ 31)) (min (2 ^ 31 - 1) v))"

section \<open>The remote command decoder\<close>

text \<open>\<^verbatim>\<open>MQTTCallback(topic, payload, length)\<close>: \<open>payload\<close> holds the \<^verbatim>\<open>length\<close> bytes of the
  message; \<^verbatim>\<open>sizeof(settings.mqtt_control_topic)\<close> is 32 and \<^verbatim>\<open>sizeof(str) - 1\<close> is 7.\<close>

definition MQTTCallback :: "string \<Rightarrow> char list \<Rightarrow> device \<Rightarrow> device" where
  "MQTTCallback topic payload s =
     (if strncmp_eq topic (mqtt_control_topic (settings s)) 32 then
        (let str = cstr (take (min (length payload) 7) payload)
         in if strcasecmp_eq str ''on'' \<or> strcasecmp_eq str ''true'' \<or> strcmp_eq str ''1''
            then s\<lparr>power_enable := True\<rparr>
            else if strcasecmp_eq str ''off'' \<or> strcasecmp_eq str ''false'' \<or> strcmp_eq str ''0''
            then s\<lparr>power_enable := False\<rparr>
            else s)
      else s)"

section \<open>Status publishing and the link supervisors\<close>

fun wifiStatusString :: "wl_status_t \<Rightarrow> string" where
  "wifiStatusString WL_NO_SHIELD = ''NO_SHIELD''"
| "wifiStatusString WL_IDLE_STATUS = ''IDLE''"
| "wifiStatusString WL_NO_SSID_AVAIL = ''NO_SSID_AVAIL''"
| "wifiStatusString WL_SCAN_COMPLETED = ''SCAN_COMPLETED''"
| "wifiStatusString WL_CONNECTED = ''CONNECTED''"
| "wifiStatusString WL_CONNECT_FAILED = ''CONNECT_FAILED''"
| "wifiStatusString WL_CONNECTION_LOST = ''CONNECTION_LOST''"
| "wifiStatusString WL_DISCONNECTED = ''DISCONNECTED''"
| "wifiStatusString (WL_OTHER v) = ''(unknown)''"

fun mqttStateString :: "mqtt_state \<Rightarrow> string" where
  "mqttStateString MQTT_CONNECTION_TIMEOUT = ''CONNECTION_TIMEOUT''"
| "mqttStateString MQTT_CONNECTION_LOST = ''CONNECTION_LOST''"
| "mqttStateString MQTT_CONNECT_FAILED = ''CONNECT_FAILED''"
| "mqttStateString MQTT_DISCONNECTED = ''DISCONNECTED''"
| "mqttStateString MQTT_CONNECTED = ''CONNECTED''"
| "mqttStateString MQTT_CONNECT_BAD_PROTOCOL = ''CONNECT_BAD_PROTOCOL''"
| "mqttStateString MQTT_CONNECT_BAD_CLIENT_ID = ''CONNECT_BAD_CLIENT_ID''"
| "mqttStateString MQTT_CONNECT_UNAVAILABLE = ''CONNECT_UNAVAILABLE''"
| "mqttStateString MQTT_CONNECT_BAD_CREDENTIALS = ''CONNECT_BAD_CREDENTIALS''"
| "mqttStateString MQTT_CONNECT_UNAUTHORIZED = ''CONNECT_UNAUTHORIZED''"
| "mqttStateString (MQTT_OTHER v) = ''(unknown)''"

definition SaveSettings :: "device \<Rightarrow> device" where
  "SaveSettings s = emit [EepromPut (settings s), EepromCommit] s"

definition RestartMQTT :: "device \<Rightarrow> device" where
  "RestartMQTT s = (emit [MqttDisconnect] s)\<lparr>mqtt_last_try := 0\<rparr>"

definition RestartWiFi :: "device \<Rightarrow> device" where
  "RestartWiFi s = (emit [WiFiDisconnect] (RestartMQTT s))\<lparr>wifi_last_try := 0\<rparr>"

definition PublishStatus :: "device \<Rightarrow> device" where
  "PublishStatus s =
     (if length (mqtt_status_topic (settings s)) > 0
      then emit [MqttPublish (mqtt_status_topic (settings s))
                   (if power_enable s then ''ON'' else ''OFF'') True] s
      else s)"

text \<open>\<^verbatim>\<open>EnsureWiFi\<close>: \<open>status\<close> is what \<^verbatim>\<open>WiFi.status()\<close> returns and \<open>now\<close> what \<^verbatim>\<open>millis()\<close>
  returns; \<^verbatim>\<open>last_status\<close> is the field \<open>wifi_last_status\<close>.\<close>

definition EnsureWiFi :: "wl_status_t \<Rightarrow> u32 \<Rightarrow> device \<Rightarrow> bool \<times> device" where
  "EnsureWiFi status now s =
     (let s1 = (if status \<noteq> wifi_last_status s
                then emit [SerialPrint ''WiFi state changed to '',
                           SerialPrint (wifiStatusString status),
                           SerialPrintln ''.''] (s\<lparr>wifi_last_status := status\<rparr>)
                else s)
      in if status = WL_CONNECTED then (True, s1)
         else if length (wifi_ssid (settings s1)) = 0 then (False, s1)
         else if wifi_last_try s1 = 0 \<or> elapsed now (wifi_last_try s1) \<ge> 60000 then
           (False,
            emit [SerialPrint ''Connecting to WiFi SSID '',
                  SerialPrint (wifi_ssid (settings s1)),
                  SerialPrintln ''.'',
                  WiFiSetHostname (device_name (settings s1)),
                  WiFiBegin (wifi_ssid (settings s1)) (wifi_password (settings s1))]
              (s1\<lparr>wifi_last_try := now\<rparr>))
         else (False, s1))"

text \<open>\<^verbatim>\<open>EnsureMQTT\<close>: \<open>state\<close> is what \<^verbatim>\<open>mqtt.state()\<close> returns, \<open>success\<close> what the blocking
  \<^verbatim>\<open>mqtt.connect\<close> returns if it is called, \<open>now\<close> what \<^verbatim>\<open>millis()\<close> returns. The connect
  without a user is the five-argument overload (\<open>None\<close>).\<close>

definition EnsureMQTT :: "mqtt_state \<Rightarrow> bool \<Rightarrow> u32 \<Rightarrow> device \<Rightarrow> bool \<times> device" where
  "EnsureMQTT state success now s =
     (let s1 = (if state \<noteq> mqtt_last_state s
                then (let s0 = emit [SerialPrint ''MQTT state changed to '',
                                     SerialPrint (mqttStateString state),
                                     SerialPrintln ''.''] (s\<lparr>mqtt_last_state := state\<rparr>)
                      in if state = MQTT_CONNECTED then PublishStatus s0 else s0)
                else s)
      in if state = MQTT_CONNECTED then (True, s1)
         else if length (mqtt_server (settings s1)) = 0 then (False, s1)
         else if mqtt_last_try s1 = 0 \<or> elapsed now (mqtt_last_try s1) \<ge> 60000 then
           (let s2 = emit [SerialPrint ''Connecting to MQTT server '',
                           SerialPrint (mqtt_server (settings s1)),
                           SerialPrintln ''.'',
                           MqttSetServer (mqtt_server (settings s1)) (mqtt_port (settings s1))]
                       (s1\<lparr>mqtt_last_try := now\<rparr>);
                id = (if length (mqtt_id (settings s2)) = 0
                      then device_name (settings s2) else mqtt_id (settings s2));
                s3 = (if length (mqtt_user (settings s2)) = 0
                      then emit [MqttConnect id None
                                   (mqtt_status_topic (settings s2)) 1 True ''OFFLINE''] s2
                      else emit [MqttConnect id
                                   (Some (mqtt_user (settings s2), mqtt_password (settings s2)))
                                   (mqtt_status_topic (settings s2)) 1 True ''OFFLINE''] s2);
                s4 = (if success \<and> length (mqtt_control_topic (settings s3)) > 0
                      then emit [MqttSubscribe (mqtt_control_topic (settings s3)) 1] s3
                      else s3)
            in (success, s4))
         else (False, s1))"

text \<open>A run of calls of one supervisor, each with what it reads from outside.\<close>

fun EnsureWiFi_calls :: "(wl_status_t \<times> u32) list \<Rightarrow> device \<Rightarrow> device" where
  "EnsureWiFi_calls [] s = s"
| "EnsureWiFi_calls ((status, now) # calls) s =
     EnsureWiFi_calls calls (snd (EnsureWiFi status now s))"

fun EnsureMQTT_calls :: "(mqtt_state \<times> bool \<times> u32) list \<Rightarrow> device \<Rightarrow> device" where
  "EnsureMQTT_calls [] s = s"
| "EnsureMQTT_calls ((state, success, now) # calls) s =
     EnsureMQTT_calls calls (snd (EnsureMQTT state success now s))"

text \<open>Counting calls in a trace: connection attempts of either link, and publishes.\<close>

fun is_wifi_attempt :: "effect \<Rightarrow> bool" where
  "is_wifi_attempt (WiFiBegin ssid pw) = True"
| "is_wifi_attempt e = False"

fun is_mqtt_attempt :: "effect \<Rightarrow> bool" where
  "is_mqtt_attempt (MqttConnect i u t q r m) = True"
| "is_mqtt_attempt e = False"

fun is_publish :: "effect \<Rightarrow> bool" where
  "is_publish (MqttPublish t m r) = True"
| "is_publish e = False"

section \<open>The Bluetooth console\<close>

text \<open>\<^verbatim>\<open>tokenSplit(char*& ptr)\<close>. A pointer into the line buffer is modelled by the C string
  that starts there, \<^verbatim>\<open>nullptr\<close> by \<open>None\<close>; the result is the token returned and the new
  value of \<^verbatim>\<open>ptr\<close>.\<close>

definition tokenSplit :: "string option \<Rightarrow> string option \<times> string option" where
  "tokenSplit ptr =
     (case ptr of
        None \<Rightarrow> (None, None)
      | Some p \<Rightarrow>
          (case dropWhile isspace p of
             [] \<Rightarrow> (None, Some [])
           | c # cs \<Rightarrow>
               (let token = c # takeWhile (\<lambda>x. \<not> isspace x) cs
                in case dropWhile (\<lambda>x. \<not> isspace x) cs of
                     [] \<Rightarrow> (Some token, None)
                   | sp # after \<Rightarrow> (Some token, Some after))))"

text \<open>\<^verbatim>\<open>SettingsReadWriteHelper(settings_value, size, new_value)\<close>. The pointer into
  \<^verbatim>\<open>settings\<close> is modelled by the field's selector \<open>get\<close> and its assignment \<open>put\<close>;
  \<open>sz\<close> is the parameter \<^verbatim>\<open>size\<close>. \<^verbatim>\<open>strncpy\<close> into the zeroed array leaves the first
  \<open>sz - 1\<close> bytes of the value.\<close>

definition SettingsReadWriteHelper ::
  "(Settings \<Rightarrow> string) \<Rightarrow> (string \<Rightarrow> Settings \<Rightarrow> Settings) \<Rightarrow> nat \<Rightarrow> string option
     \<Rightarrow> device \<Rightarrow> bool \<times> device"
where
  "SettingsReadWriteHelper get put sz new_value s =
     (case new_value of
        Some v \<Rightarrow>
          (let s1 = s\<lparr>settings := put [] (settings s)\<rparr>;
               s2 = (if \<not> strcmp_eq v ''-''
                     then s1\<lparr>settings := put (take (sz - 1) v) (settings s1)\<rparr>
                     else s1)
           in (True, emit [BtPrintln ''Settings saved.''] (SaveSettings s2)))
      | None \<Rightarrow> (False, emit [BtPrintln (get (settings s))] s))"

definition PrintHelp :: "device \<Rightarrow> device" where
  "PrintHelp s =
     emit [BtPrintln ''Help:'', BtPrintln '' help'', BtPrintln '' on'', BtPrintln '' off'',
           BtPrintln '' status'', BtPrintln '' device-name [<name>]'',
           BtPrintln '' mqtt-server [<IPaddr>]'', BtPrintln '' mqtt-status'',
           BtPrintln '' mqtt-port [<port>]'', BtPrintln '' mqtt-id [<id>]'',
           BtPrintln '' mqtt-auth <user> [<password>]'',
           BtPrintln '' mqtt-control-topic [<topic>]'',
           BtPrintln '' mqtt-status-topic [<topic>]'',
           BtPrintln '' wifi <ssid> [<password>]'', BtPrintln '' wifi-status''] s"

text \<open>What the \<^verbatim>\<open>wifi-status\<close> command reads from the WiFi library.\<close>

record wifi_report =
  wr_mode :: int
  wr_status :: wl_status_t
  wr_ssid :: string
  wr_bssid :: string
  wr_rssi :: int
  wr_ip :: string

definition WIFI_OFF :: int where
  "WIFI_OFF = 0"

text \<open>Passing \<^verbatim>\<open>nullptr\<close> to \<^verbatim>\<open>strcmp\<close> dereferences it.\<close>

datatype fault = NullPointerDereference

text \<open>\<^verbatim>\<open>PollBluetoothCommand\<close> of \<^verbatim>\<open>MQTTSwitch.ino\<close>, in two parts: the \<^verbatim>\<open>if\<close>/\<^verbatim>\<open>else if\<close>
  chain over the command word, and the reading of the line before it. \<open>ptr\<close> is the
  pointer \<^verbatim>\<open>tokenSplit\<close> has left behind the command word; \<open>mst\<close> is \<^verbatim>\<open>mqtt.state()\<close> and
  \<open>wr\<close> the WiFi library's answers, for the two status commands. The array sizes are
  those of \<^verbatim>\<open>struct Settings\<close>.\<close>

definition PollBluetoothCommand_dispatch ::
  "string \<Rightarrow> string option \<Rightarrow> mqtt_state \<Rightarrow> wifi_report \<Rightarrow> device \<Rightarrow> device"
where
  "PollBluetoothCommand_dispatch cmd ptr mst wr s =
    (if cmd = ''help'' then PrintHelp s
     else if cmd = ''on'' then s\<lparr>power_enable := True\<rparr>
     else if cmd = ''off'' then s\<lparr>power_enable := False\<rparr>
     else if cmd = ''status'' then
       emit [BtPrintln (if power_enable s then ''on'' else ''off'')] s
     else if cmd = ''device-name'' then
       (case SettingsReadWriteHelper device_name (\<lambda>v st. st\<lparr>device_name := v\<rparr>) 32
               (fst (tokenSplit ptr)) s of
          (changed, s1) \<Rightarrow> if changed then RestartWiFi s1 else s1)
     else if cmd = ''mqtt-status'' then
       emit [BtPrintln (mqttStateString mst)] s
     else if cmd = ''mqtt-server'' then
       (case SettingsReadWriteHelper mqtt_server (\<lambda>v st. st\<lparr>mqtt_server := v\<rparr>) 16
               (fst (tokenSplit ptr)) s of
          (changed, s1) \<Rightarrow> if changed then RestartMQTT s1 else s1)
     else if cmd = ''mqtt-port'' then
       (case fst (tokenSplit ptr) of
          Some port \<Rightarrow>
            (let p = atoi port
             in if p < 1 \<or> p > 65535
                then emit [BtPrintln ''Error: invalid port number''] s
                else RestartMQTT
                       (emit [BtPrintln ''Settings saved!'']
                          (SaveSettings
                             (s\<lparr>settings := (settings s)\<lparr>mqtt_port := word_of_int p\<rparr>\<rparr>))))
        | None \<Rightarrow> emit [BtPrintlnInt (uint (mqtt_port (settings s)))] s)
     else if cmd = ''mqtt-id'' then
       (case SettingsReadWriteHelper mqtt_id (\<lambda>v st. st\<lparr>mqtt_id := v\<rparr>) 16
               (fst (tokenSplit ptr)) s of
          (changed, s1) \<Rightarrow> if changed then RestartMQTT s1 else s1)
     else if cmd = ''mqtt-auth'' then
       (case tokenSplit ptr of
          (None, ptr1) \<Rightarrow> emit [BtPrintln ''Error: must specify user''] s
        | (Some user, ptr1) \<Rightarrow>
            RestartMQTT
              (emit [BtPrintln ''Settings saved!'']
                 (SaveSettings
                    (s\<lparr>settings := (settings s)
                         \<lparr>mqtt_user := take 15 user,
                           mqtt_password :=
                             (case fst (tokenSplit ptr1) of
                                Some password \<Rightarrow> take 15 password
                              | None \<Rightarrow> [])\<rparr>\<rparr>))))
     else if cmd = ''mqtt-control-topic'' then
       (case SettingsReadWriteHelper mqtt_control_topic
               (\<lambda>v st. st\<lparr>mqtt_control_topic := v\<rparr>) 32 (fst (tokenSplit ptr)) s of
          (changed, s1) \<Rightarrow> if changed then emit [MqttDisconnect] s1 else s1)
     else if cmd = ''mqtt-status-topic'' then
       (case SettingsReadWriteHelper mqtt_status_topic
               (\<lambda>v st. st\<lparr>mqtt_status_topic := v\<rparr>) 32 (fst (tokenSplit ptr)) s of
          (changed, s1) \<Rightarrow> if changed then RestartMQTT s1 else s1)
     else if cmd = ''wifi'' then
       (case tokenSplit ptr of
          (None, ptr1) \<Rightarrow> emit [BtPrintln ''Error: must specify SSID''] s
        | (Some ssid, ptr1) \<Rightarrow>
            RestartWiFi
              (emit [BtPrintln ''Settings saved!'']
                 (SaveSettings
                    (s\<lparr>settings := (settings s)
                         \<lparr>wifi_ssid := take 31 ssid,
                           wifi_password :=
                             (case fst (tokenSplit ptr1) of
                                Some password \<Rightarrow> take 31 password
                              | None \<Rightarrow> [])\<rparr>\<rparr>))))
     else if cmd = ''wifi-status'' then
       (let s1 = emit [BtPrint ''Mode: '', BtPrintlnInt (wr_mode wr)] s
        in if wr_mode wr = WIFI_OFF then s1
           else
             (let s2 = emit [BtPrint ''Status: '',
                             BtPrintln (wifiStatusString (wr_status wr))] s1
              in if wr_status wr \<noteq> WL_CONNECTED then s2
                 else emit [BtPrint ''SSID: '', BtPrintln (wr_ssid wr),
                            BtPrint ''BSSID: '', BtPrintln (wr_bssid wr),
                            BtPrint ''RSSI: '', BtPrintlnInt (wr_rssi wr),
                            BtPrint ''IP: '', BtPrintln (wr_ip wr)] s2))
     else emit [BtPrintln ''Error: command not found''] s)"

text \<open>\<open>line\<close> is \<open>None\<close> when \<^verbatim>\<open>bt.available()\<close> is 0 and otherwise what
  \<^verbatim>\<open>bt.readStringUntil('\n')\<close> returns; \<^verbatim>\<open>strcpy\<close> copies its C string into \<^verbatim>\<open>buf\<close>. The
  first \<^verbatim>\<open>strcmp(cmd, "help")\<close> reads through \<^verbatim>\<open>cmd\<close>.\<close>

definition PollBluetoothCommand ::
  "string option \<Rightarrow> mqtt_state \<Rightarrow> wifi_report \<Rightarrow> device \<Rightarrow> fault + device"
where
  "PollBluetoothCommand line mst wr s =
     (case line of
        None \<Rightarrow> Inr s
      | Some input \<Rightarrow>
          (case tokenSplit (Some (cstr input)) of
             (None, ptr) \<Rightarrow> Inl NullPointerDereference
           | (Some cmd, ptr) \<Rightarrow> Inr (PollBluetoothCommand_dispatch cmd ptr mst wr s)))"

text \<open>The publishes of a trace, and what of the state decides the next status publish.\<close>

definition pubs :: "device \<Rightarrow> effect list" where
  "pubs s = filter is_publish (trace s)"


section \<open>The main loop\<close>

text \<open>What one iteration of \<^verbatim>\<open>loop\<close> reads from outside: the console line, the answers of
  the libraries, the messages \<^verbatim>\<open>mqtt.loop()\<close> hands to the callback, and the value of each
  \<^verbatim>\<open>millis()\<close> call in program order. The interrupt handler runs between iterations.\<close>

record loop_env =
  t_enable :: u32
  bt_line :: "string option"
  cmd_mqtt_state :: mqtt_state
  cmd_wifi :: wifi_report
  bt_has_client :: bool
  t_idle :: u32
  wifi_status :: wl_status_t
  t_wifi :: u32
  mqtt_status :: mqtt_state
  mqtt_connect_ok :: bool
  t_mqtt :: u32
  mqtt_inbound :: "(string \<times> char list) list"
  t_blink :: u32
  t_blink_set :: u32

text \<open>The console flag's edge (the first \<^verbatim>\<open>if\<close> of \<^verbatim>\<open>loop\<close> in \<^verbatim>\<open>MQTTSwitch.ino\<close>).\<close>

definition loop_console_edge :: "u32 \<Rightarrow> device \<Rightarrow> device" where
  "loop_console_edge now s =
     (if bluetooth_enable s \<noteq> last_bluetooth_enable s then
        (let s1 = s\<lparr>last_bluetooth_enable := bluetooth_enable s\<rparr>
         in if bluetooth_enable s1
            then emit [BtBegin (device_name (settings s1)),
                       SerialPrint ''Bluetooth enabled; name: '',
                       SerialPrint (device_name (settings s1)),
                       SerialPrintln ''.''] (s1\<lparr>bluetooth_enable_millis := now\<rparr>)
            else emit [BtEnd, SerialPrintln ''Bluetooth disabled.''] s1)
      else s)"

text \<open>Inside \<^verbatim>\<open>if (bluetooth_enable)\<close>, after \<^verbatim>\<open>PollBluetoothCommand()\<close>: the client edge and
  the timeout of \<^verbatim>\<open>MQTTSwitch.ino\<close>. \<open>has_client\<close> is \<^verbatim>\<open>bt.hasClient()\<close>, \<open>now\<close> the
  \<^verbatim>\<open>millis()\<close> of the timeout test.\<close>

definition loop_client_idle :: "bool \<Rightarrow> u32 \<Rightarrow> device \<Rightarrow> device" where
  "loop_client_idle has_client now s =
     (let s1 = (if has_client \<noteq> last_bluetooth_has_client s then
                  (let s0 = s\<lparr>last_bluetooth_has_client := has_client\<rparr>
                   in if has_client
                      then PrintHelp (emit [SerialPrintln ''Bluetooth client connected.''] s0)
                      else emit [SerialPrintln ''Bluetooth client disconnected.''] s0)
                else s)
      in if \<not> has_client \<and> elapsed now (bluetooth_enable_millis s1) \<ge> 600000
         then emit [SerialPrintln ''Bluetooth timeout.''] (s1\<lparr>bluetooth_enable := False\<rparr>)
         else s1)"

text \<open>The same lines of the access-point sketch, whose \<^verbatim>\<open>PrintHelp\<close> has one more line and
  whose \<^verbatim>\<open>loop\<close> keeps \<^verbatim>\<open>bluetooth_disconnected_millis\<close>: \<open>t_edge\<close> is the \<^verbatim>\<open>millis()\<close> of
  the disconnect branch, \<open>now\<close> that of the timeout test.\<close>

definition PrintHelp_AP :: "device \<Rightarrow> device" where
  "PrintHelp_AP s =
     emit [BtPrintln ''Help:'', BtPrintln '' help'', BtPrintln '' on'', BtPrintln '' off'',
           BtPrintln '' status'', BtPrintln '' setup'', BtPrintln '' device-name [<name>]'',
           BtPrintln '' mqtt-server [<IPaddr>]'', BtPrintln '' mqtt-status'',
           BtPrintln '' mqtt-port [<port>]'', BtPrintln '' mqtt-id [<id>]'',
           BtPrintln '' mqtt-auth <user> [<password>]'',
           BtPrintln '' mqtt-control-topic [<topic>]'',
           BtPrintln '' mqtt-status-topic [<topic>]'',
           BtPrintln '' wifi <ssid> [<password>]'', BtPrintln '' wifi-status''] s"

definition loop_client_idle_AP :: "bool \<Rightarrow> u32 \<Rightarrow> u32 \<Rightarrow> device \<Rightarrow> device" where
  "loop_client_idle_AP has_client t_edge now s =
     (let s1 = (if has_client \<noteq> last_bluetooth_has_client s then
                  (let s0 = s\<lparr>last_bluetooth_has_client := has_client\<rparr>
                   in if has_client
                      then PrintHelp_AP (emit [SerialPrintln ''Bluetooth client connected.''] s0)
                      else emit [SerialPrintln ''Bluetooth client disconnected.'']
                             (s0\<lparr>bluetooth_disconnected_millis := t_edge\<rparr>))
                else s)
      in if \<not> has_client \<and> elapsed now (bluetooth_disconnected_millis s1) \<ge> 600000
         then emit [SerialPrintln ''Config timeout.''] (s1\<lparr>bluetooth_enable := False\<rparr>)
         else s1)"

text \<open>\<^verbatim>\<open>mqtt.loop()\<close> calls \<^verbatim>\<open>MQTTCallback\<close> for each message that has arrived.\<close>

definition mqtt_loop :: "(string \<times> char list) list \<Rightarrow> device \<Rightarrow> device" where
  "mqtt_loop inbound s = foldl (\<lambda>st (topic, payload). MQTTCallback topic payload st)
                           (emit [MqttLoop] s) inbound"

definition loop_links :: "loop_env \<Rightarrow> device \<Rightarrow> device" where
  "loop_links env s =
     (case EnsureWiFi (wifi_status env) (t_wifi env) s of
        (True, s1) \<Rightarrow>
          (case EnsureMQTT (mqtt_status env) (mqtt_connect_ok env) (t_mqtt env) s1 of
             (True, s2) \<Rightarrow> (mqtt_loop (mqtt_inbound env) s2)\<lparr>blink_delay := 5000\<rparr>
           | (False, s2) \<Rightarrow> s2\<lparr>blink_delay := 1000\<rparr>)
      | (False, s1) \<Rightarrow> s1\<lparr>blink_delay := 250\<rparr>)"

definition loop_blink :: "u32 \<Rightarrow> u32 \<Rightarrow> device \<Rightarrow> device" where
  "loop_blink now now_set s =
     (if blink_delay s = 0
      then (emit [DigitalWrite STATUS_LED True] s)\<lparr>status_led := True\<rparr>
      else if elapsed now (last_blink s) \<ge> blink_delay s
      then (emit [DigitalWrite STATUS_LED (\<not> status_led s)] (s\<lparr>last_blink := now_set\<rparr>))
             \<lparr>status_led := \<not> status_led s\<rparr>
      else s)"

definition loop_power :: "device \<Rightarrow> device" where
  "loop_power s =
     (if power_enable s \<noteq> last_power_enable s
      then PublishStatus
             (emit [DigitalWrite POWER_PIN (power_enable s),
                    SerialPrintln (if power_enable s then ''Power on.'' else ''Power off.'')]
                (s\<lparr>last_power_enable := power_enable s\<rparr>))
      else s)"

text \<open>\<^verbatim>\<open>loop\<close> of \<^verbatim>\<open>MQTTSwitch.ino\<close>. Its \<^verbatim>\<open>static\<close> locals with a non-constant initialiser
  (\<^verbatim>\<open>last_power_enable\<close>, \<^verbatim>\<open>last_bluetooth_enable\<close>) are set when control first passes
  their declaration.\<close>

definition loop :: "loop_env \<Rightarrow> device \<Rightarrow> fault + device" where
  "loop env s =
     (let s0 = (if loop_entered s then s
                else s\<lparr>loop_entered := True, last_power_enable := power_enable s,
                       last_bluetooth_enable := bluetooth_enable s\<rparr>);
          s1 = loop_console_edge (t_enable env) s0
      in case (if bluetooth_enable s1
               then (case PollBluetoothCommand (bt_line env) (cmd_mqtt_state env) (cmd_wifi env) s1 of
                       Inl f \<Rightarrow> Inl f
                     | Inr s2 \<Rightarrow> Inr (loop_client_idle (bt_has_client env) (t_idle env) s2))
               else Inr s1) of
           Inl f \<Rightarrow> Inl f
         | Inr s3 \<Rightarrow>
             Inr (loop_power (loop_blink (t_blink env) (t_blink_set env) (loop_links env s3))))"

section \<open>Startup\<close>

text \<open>\<^verbatim>\<open>setup\<close> of \<^verbatim>\<open>MQTTSwitch.ino\<close> (the name is a keyword of Isabelle, hence the suffix).
  \<open>stored\<close> is the record \<^verbatim>\<open>EEPROM.get(0, s)\<close> reads into the local \<^verbatim>\<open>s\<close>.\<close>

definition setup_sketch :: "Settings \<Rightarrow> device \<Rightarrow> device" where
  "setup_sketch stored s =
     (let s1 = emit [PinModeInputPullup BUTTON_PIN, PinModeOutput POWER_PIN,
                     PinModeOutput STATUS_LED, AttachInterruptChange BUTTON_PIN,
                     SerialBegin 115200, EepromBegin, EepromGet] s;
          s2 = (if header stored = SETTINGS_HEADER
                then (emit [SerialPrintln ''Loaded valid settings.''] s1)\<lparr>settings := stored\<rparr>
                else emit [SerialPrintln ''Found invalid settings header; settings reset.''] s1)
      in emit [MqttSetSocketTimeout 5, MqttSetCallback] s2)"

text \<open>The same lines of the access-point sketch's \<^verbatim>\<open>setup\<close> (its header byte is
  \<open>SETTINGS_HEADER_AP\<close>), up to the call of \<^verbatim>\<open>mqtt.setCallback\<close>; the mounting of the file
  system and the web server's routes follow and touch none of the state modelled here.\<close>

definition setup_sketch_AP :: "Settings \<Rightarrow> device \<Rightarrow> device" where
  "setup_sketch_AP stored s =
     (let s1 = emit [PinModeInputPullup BUTTON_PIN, PinModeOutput POWER_PIN,
                     PinModeOutput STATUS_LED, AttachInterruptChange BUTTON_PIN,
                     SerialBegin 115200, EepromBegin, EepromGet] s;
          s2 = (if header stored = SETTINGS_HEADER_AP
                then (emit [SerialPrintln ''Loaded valid settings.''] s1)\<lparr>settings := stored\<rparr>
                else emit [SerialPrintln ''Found invalid settings header; settings reset.''] s1)
      in emit [MqttSetSocketTimeout 5, MqttSetCallback] s2)"

section \<open>The settings form of the access-point sketch\<close>

text \<open>\<^verbatim>\<open>httpPOSTSettings\<close>, up to its call of \<^verbatim>\<open>SaveSettings()\<close>; the three calls on
  \<^verbatim>\<open>web_server\<close> that follow send the redirect and touch none of the state modelled here.
  \<open>arg\<close> is \<^verbatim>\<open>web_server.arg\<close>, the empty string for a parameter the request lacks.
  \<^verbatim>\<open>strncpy(dst, src, sizeof(dst))\<close> writes every byte of \<^verbatim>\<open>dst\<close>: the first \<^verbatim>\<open>sizeof(dst)\<close>
  bytes of the C string, then NULs if the string is shorter, so a value that fills the array
  leaves no terminator in it. The sizes are those of this sketch's \<^verbatim>\<open>struct Settings\<close>,
  whose \<^verbatim>\<open>mqtt_password\<close> has 32 bytes; \<^verbatim>\<open>mysettings\<close> is constructed with this sketch's
  header byte.\<close>

definition httpPOSTSettings :: "(string \<Rightarrow> string) \<Rightarrow> device \<Rightarrow> device" where
  "httpPOSTSettings arg s =
     (let mysettings =
            \<lparr> header = SETTINGS_HEADER_AP,
              device_name = take 32 (cstr (arg ''device_name'')),
              wifi_ssid = take 32 (cstr (arg ''wifi_ssid'')),
              wifi_password = take 32 (cstr (arg ''wifi_password'')),
              mqtt_server = take 16 (cstr (arg ''mqtt_server'')),
              mqtt_port = word_of_int (atoi (cstr (arg ''mqtt_port''))),
              mqtt_id = take 16 (cstr (arg ''mqtt_id'')),
              mqtt_user = take 16 (cstr (arg ''mqtt_user'')),
              mqtt_password = take 32 (cstr (arg ''mqtt_password'')),
              mqtt_control_topic = take 32 (cstr (arg ''mqtt_control_topic'')),
              mqtt_status_topic = take 32 (cstr (arg ''mqtt_status_topic'')) \<rparr>
      in SaveSettings (s\<lparr>settings := mysettings\<rparr>))"

section \<open>Runs of the device\<close>

text \<open>What happens to the device after \<^verbatim>\<open>setup\<close>: an edge of the button, which the
  interrupt handler serves between two iterations, or an iteration of \<^verbatim>\<open>loop\<close> of
  \<^verbatim>\<open>MQTTSwitch.ino\<close>. A run ends at the first fault.\<close>

datatype event = ButtonEdge u32 bool | LoopIteration loop_env

fun run :: "event list \<Rightarrow> device \<Rightarrow> fault + device" where
  "run [] s = Inr s"
| "run (ButtonEdge now low # es) s = run es (ButtonChangeISR now low s)"
| "run (LoopIteration env # es) s =
     (case loop env s of Inl f \<Rightarrow> Inl f | Inr s' \<Rightarrow> run es s')"

section \<open>Tables and sample states used by the theorems\<close>

text \<open>The console commands that read or write one string field through
  \<^verbatim>\<open>SettingsReadWriteHelper\<close>: command word, field, and the \<^verbatim>\<open>sizeof\<close> passed.\<close>

definition string_settings :: "(string \<times> (Settings \<Rightarrow> string) \<times> nat) list" where
  "string_settings =
     [(''device-name'', device_name, 32), (''mqtt-server'', mqtt_server, 16),
      (''mqtt-id'', mqtt_id, 16), (''mqtt-control-topic'', mqtt_control_topic, 32),
      (''mqtt-status-topic'', mqtt_status_topic, 32)]"

text \<open>A booted device with both endpoints and both topics configured; the same with both
  links up and seen by the supervisors.\<close>

definition configured_device :: device where
  "configured_device =
     (boot_device SETTINGS_HEADER)
       \<lparr>settings := (default_settings SETTINGS_HEADER)
          \<lparr>wifi_ssid := ''home'', wifi_password := ''secret'', mqtt_server := ''10.0.0.2'',
            mqtt_control_topic := ''sw/set'', mqtt_status_topic := ''sw/state''\<rparr>\<rparr>"

definition online_device :: device where
  "online_device =
     configured_device\<lparr>loop_entered := True, wifi_last_status := WL_CONNECTED,
       mqtt_last_state := MQTT_CONNECTED, wifi_last_try := 3000, mqtt_last_try := 4000\<rparr>"

text \<open>The online device with the console open and a client attached, and what the console
  line \<open>mqtt-server -\<close> makes of it.\<close>

definition online_console :: device where
  "online_console =
     online_device\<lparr>bluetooth_enable := True, last_bluetooth_enable := True,
       bluetooth_enable_millis := 8000, last_bluetooth_has_client := True\<rparr>"

definition server_cleared :: device where
  "server_cleared =
     online_console
       \<lparr>settings := (settings online_console)\<lparr>mqtt_server := []\<rparr>,
         mqtt_last_try := 0,
         trace := [EepromPut ((settings online_console)\<lparr>mqtt_server := []\<rparr>), EepromCommit,
                   BtPrintln ''Settings saved.'', MqttDisconnect]\<rparr>"

definition no_wifi_report :: wifi_report where
  "no_wifi_report =
     \<lparr> wr_mode = 0, wr_status = WL_DISCONNECTED, wr_ssid = [], wr_bssid = [],
       wr_rssi = 0, wr_ip = [] \<rparr>"


text \<open>An iteration at \<open>now\<close> with no console line, the WiFi library not started and the
  bus disconnected; \<open>has_client\<close> is what \<^verbatim>\<open>bt.hasClient()\<close> answers.\<close>

definition idle_env :: "u32 \<Rightarrow> bool \<Rightarrow> loop_env" where
  "idle_env now has_client =
     \<lparr> t_enable = now, bt_line = None, cmd_mqtt_state = MQTT_DISCONNECTED,
       cmd_wifi = no_wifi_report, bt_has_client = has_client, t_idle = now,
       wifi_status = WL_NO_SHIELD, t_wifi = now, mqtt_status = MQTT_DISCONNECTED,
       mqtt_connect_ok = False, t_mqtt = now, mqtt_inbound = [],
       t_blink = now, t_blink_set = now \<rparr>"

text \<open>Either sketch after \<^verbatim>\<open>setup\<close> on a flash that holds no settings (header byte
  \<open>0xFF\<close>).\<close>

definition fresh_device :: device where
  "fresh_device = setup_sketch (default_settings 0xFF) (boot_device SETTINGS_HEADER)"

definition fresh_device_AP :: device where
  "fresh_device_AP = setup_sketch_AP (default_settings 0xFF) (boot_device SETTINGS_HEADER_AP)"

text \<open>A console session of \<^verbatim>\<open>MQTTSwitch.ino\<close>: a first iteration at 10 ms, the button held
  from 1500 to 7000 ms, the iteration at 7010 ms that opens the console, one at 20000 ms
  that finds a client attached, and one at 640000 ms that finds it still attached. The
  state this run ends in is \<open>attached_console\<close>.\<close>

definition long_session :: "event list" where
  "long_session =
     [LoopIteration (idle_env 10 False), ButtonEdge 1500 True, ButtonEdge 7000 False,
      LoopIteration (idle_env 7010 False), LoopIteration (idle_env 20000 True),
      LoopIteration (idle_env 640000 True)]"

definition attached_console :: device where
  "attached_console =
     fresh_device
       \<lparr>bluetooth_enable := True, bluetooth_enable_millis := 7010,
         button_press_millis := 1500, loop_entered := True, last_blink := 640000,
         blink_delay := 250, last_bluetooth_enable := True,
         last_bluetooth_has_client := True, status_led := True,
         trace := trace fresh_device @
           [BtBegin ''MQTTSwitch'', SerialPrint ''Bluetooth enabled; name: '',
            SerialPrint ''MQTTSwitch'', SerialPrintln ''.'', DigitalWrite STATUS_LED True,
            SerialPrintln ''Bluetooth client connected.'',
            BtPrintln ''Help:'', BtPrintln '' help'', BtPrintln '' on'', BtPrintln '' off'',
            BtPrintln '' status'', BtPrintln '' device-name [<name>]'',
            BtPrintln '' mqtt-server [<IPaddr>]'', BtPrintln '' mqtt-status'',
            BtPrintln '' mqtt-port [<port>]'', BtPrintln '' mqtt-id [<id>]'',
            BtPrintln '' mqtt-auth <user> [<password>]'',
            BtPrintln '' mqtt-control-topic [<topic>]'',
            BtPrintln '' mqtt-status-topic [<topic>]'',
            BtPrintln '' wifi <ssid> [<password>]'', BtPrintln '' wifi-status'',
            DigitalWrite STATUS_LED False, DigitalWrite STATUS_LED True]\<rparr>"

text \<open>The access-point sketch after \<^verbatim>\<open>setup\<close> with the button held from 1500 to 7000 ms,
  which sets \<^verbatim>\<open>config_enable\<close>; and the same with the button held from 694000 to 700000 ms,
  no client having attached since boot.\<close>

definition config_mode_AP :: device where
  "config_mode_AP = ButtonChangeISR 7000 False (ButtonChangeISR 1500 True fresh_device_AP)"

definition late_config_AP :: device where
  "late_config_AP = ButtonChangeISR 700000 False (ButtonChangeISR 694000 True fresh_device_AP)"

text \<open>The parameters of a request to \<^verbatim>\<open>POST /settings\<close>; the control topic has 32
  characters.\<close>

definition long_topic_form :: "string \<Rightarrow> string" where
  "long_topic_form name =
     (case map_of [(''device_name'', ''MQTTSwitch''), (''wifi_ssid'', ''home''),
                   (''wifi_password'', ''secret''), (''mqtt_server'', ''10.0.0.2''),
                   (''mqtt_port'', ''1883''),
                   (''mqtt_control_topic'', ''home/livingroom/floorlamp/switch''),
                   (''mqtt_status_topic'', ''stat/floorlamp'')] name of
        Some v \<Rightarrow> v
      | None \<Rightarrow> [])"

section \<open>Wrap-safe durations\<close>

text \<open>
  Claim C2. For 32-bit timestamps taken from a clock that has really run from \<open>Ts\<close> to
  \<open>Tn\<close> milliseconds, \<open>elapsed\<close> is the true elapsed time modulo \<open>2 ^ 32\<close>; it is the
  true elapsed time when that is below \<open>2 ^ 32\<close>, so a comparison of \<open>elapsed\<close> with any
  threshold \<open>K\<close> (debounce, hold, retry interval, idle timeout, blink period) decides as
  the comparison of the true elapsed time does; and \<open>elapsed 5 4294967295 = 6\<close>.
\<close>

theorem elapsed_wrap_safe:
  fixes Tn Ts :: nat and K :: u32
  assumes "Ts \<le> Tn"
  shows "unat (elapsed (of_nat Tn) (of_nat Ts)) = (Tn - Ts) mod 2 ^ 32
       \<and> (Tn - Ts < 2 ^ 32 \<longrightarrow>
            unat (elapsed (of_nat Tn) (of_nat Ts)) = Tn - Ts
          \<and> (K \<le> elapsed (of_nat Tn) (of_nat Ts)) = (unat K \<le> Tn - Ts))
       \<and> elapsed 5 4294967295 = 6"
proof -
  have diff: "(of_nat Tn :: u32) - of_nat Ts = of_nat (Tn - Ts)"
    using assms by simp
  have m: "unat (elapsed (of_nat Tn) (of_nat Ts)) = (Tn - Ts) mod 2 ^ 32"
    unfolding elapsed_def diff by (simp add: unat_of_nat)
  have e: "unat (elapsed (of_nat Tn) (of_nat Ts)) = Tn - Ts" if "Tn - Ts < 2 ^ 32"
    using m that by simp
  have k: "(K \<le> elapsed (of_nat Tn) (of_nat Ts)) = (unat K \<le> Tn - Ts)" if "Tn - Ts < 2 ^ 32"
    using e [OF that] by (simp add: word_le_nat_alt)
  have w: "elapsed 5 4294967295 = 6"
    by (simp add: elapsed_def)
  from m e k w show ?thesis by blast
qed

text \<open>The clock has run from \<open>2 ^ 32 - 1\<close> to \<open>2 ^ 32 + 5\<close>: the counter reads
  \<open>4294967295\<close> and then \<open>5\<close>, six milliseconds apart, and a 50 ms threshold is not met.\<close>

theorem elapsed_wrap_safe_witness:
  "unat (elapsed 5 4294967295) = 6 \<and> \<not> (50 \<le> elapsed 5 4294967295)"
  using elapsed_wrap_safe [of 4294967295 4294967301 50] by simp

section \<open>Button classification\<close>

lemma hold_order:
  fixes d :: u32
  shows "d < 50 \<Longrightarrow> \<not> 5000 \<le> d" and "5000 \<le> d \<Longrightarrow> 50 \<le> d"
  by (simp_all add: word_less_nat_alt word_le_nat_alt)

lemma ButtonChangeISR_press:
  "\<not> button_press s \<Longrightarrow>
     ButtonChangeISR t0 True s = s\<lparr>button_press := True, button_press_millis := t0\<rparr>"
  by (simp add: ButtonChangeISR_def)

lemma ButtonChangeISR_bounce:
  "button_press s \<Longrightarrow> ButtonChangeISR t True s = s"
  "\<not> button_press s \<Longrightarrow> ButtonChangeISR t False s = s"
  by (simp_all add: ButtonChangeISR_def)

text \<open>
  Claim C1. On the release edge of a press in progress (\<open>button_press\<close> set, the press
  recorded at \<open>button_press_millis\<close>), with \<open>d\<close> the held duration the handler computes:
  \<open>d < 50\<close> leaves the power flag, the console flag and the pins alone;
  \<open>50 \<le> d < 5000\<close> negates the power flag once, writes the new value to the relay pin inside
  the handler and leaves the console flag; \<open>5000 \<le> d\<close> negates the console flag once and
  leaves the power flag and the pins. In each case nothing else changes but \<open>button_press\<close>,
  which is cleared.
\<close>

theorem ButtonChangeISR_release:
  assumes "button_press s"
  shows "(elapsed now (button_press_millis s) < 50 \<longrightarrow>
            ButtonChangeISR now False s = s\<lparr>button_press := False\<rparr>)
       \<and> (50 \<le> elapsed now (button_press_millis s) \<and> elapsed now (button_press_millis s) < 5000 \<longrightarrow>
            ButtonChangeISR now False s =
              s\<lparr>button_press := False, power_enable := \<not> power_enable s,
                trace := trace s @ [DigitalWrite POWER_PIN (\<not> power_enable s)]\<rparr>)
       \<and> (5000 \<le> elapsed now (button_press_millis s) \<longrightarrow>
            ButtonChangeISR now False s =
              s\<lparr>button_press := False, bluetooth_enable := \<not> bluetooth_enable s\<rparr>)"
proof (intro conjI impI)
  assume "elapsed now (button_press_millis s) < 50"
  then have "\<not> 5000 \<le> elapsed now (button_press_millis s)"
    and "\<not> 50 \<le> elapsed now (button_press_millis s)"
    by (simp_all add: hold_order)
  with assms show "ButtonChangeISR now False s = s\<lparr>button_press := False\<rparr>"
    by (simp add: ButtonChangeISR_def DEBOUNCE_MILLIS_def)
next
  assume "50 \<le> elapsed now (button_press_millis s) \<and> elapsed now (button_press_millis s) < 5000"
  then have "50 \<le> elapsed now (button_press_millis s)"
    and "\<not> 5000 \<le> elapsed now (button_press_millis s)"
    by (simp_all add: not_le)
  with assms show "ButtonChangeISR now False s =
      s\<lparr>button_press := False, power_enable := \<not> power_enable s,
        trace := trace s @ [DigitalWrite POWER_PIN (\<not> power_enable s)]\<rparr>"
    by (simp add: ButtonChangeISR_def DEBOUNCE_MILLIS_def emit_def)
next
  assume "5000 \<le> elapsed now (button_press_millis s)"
  with assms show "ButtonChangeISR now False s =
      s\<lparr>button_press := False, bluetooth_enable := \<not> bluetooth_enable s\<rparr>"
    by (simp add: ButtonChangeISR_def)
qed

text \<open>Three presses of the booted device starting at 1000 ms, held 49, 50 and 5000 ms; and a
  press at \<open>2 ^ 32 - 10\<close> released at 4989, which the wrapped counter still reads as 4999 ms.\<close>

theorem ButtonChangeISR_release_witness:
  "power_enable (ButtonChangeISR 1049 False (ButtonChangeISR 1000 True (boot_device SETTINGS_HEADER))) = False
   \<and> bluetooth_enable (ButtonChangeISR 1049 False (ButtonChangeISR 1000 True (boot_device SETTINGS_HEADER))) = False
   \<and> power_enable (ButtonChangeISR 1050 False (ButtonChangeISR 1000 True (boot_device SETTINGS_HEADER))) = True
   \<and> trace (ButtonChangeISR 1050 False (ButtonChangeISR 1000 True (boot_device SETTINGS_HEADER)))
       = [DigitalWrite POWER_PIN True]
   \<and> bluetooth_enable (ButtonChangeISR 1050 False (ButtonChangeISR 1000 True (boot_device SETTINGS_HEADER))) = False
   \<and> power_enable (ButtonChangeISR 4989 False (ButtonChangeISR 4294967286 True (boot_device SETTINGS_HEADER))) = True
   \<and> bluetooth_enable (ButtonChangeISR 6000 False (ButtonChangeISR 1000 True (boot_device SETTINGS_HEADER))) = True
   \<and> power_enable (ButtonChangeISR 6000 False (ButtonChangeISR 1000 True (boot_device SETTINGS_HEADER))) = False"
  using ButtonChangeISR_release [of "ButtonChangeISR 1000 True (boot_device SETTINGS_HEADER)" 1049]
    ButtonChangeISR_release [of "ButtonChangeISR 1000 True (boot_device SETTINGS_HEADER)" 1050]
    ButtonChangeISR_release [of "ButtonChangeISR 4294967286 True (boot_device SETTINGS_HEADER)" 4989]
    ButtonChangeISR_release [of "ButtonChangeISR 1000 True (boot_device SETTINGS_HEADER)" 6000]
  by (simp add: ButtonChangeISR_press boot_device_def elapsed_def)

section \<open>Decoding remote commands\<close>

lemma strncmp_eq_iff: "length b < n \<Longrightarrow> strncmp_eq a b n = (a = b)"
  by (induction a b n rule: strncmp_eq.induct) auto

lemma tolower_digit:
  "(tolower c = CHR ''1'') = (c = CHR ''1'')" "(tolower c = CHR ''0'') = (c = CHR ''0'')"
  by (auto simp: tolower_def split: if_splits)

lemma lower_digit:
  "(map tolower str = ''1'') = (str = ''1'')" "(map tolower str = ''0'') = (str = ''0'')"
  by (auto simp: tolower_digit)

lemma lower_literal:
  "map tolower ''on'' = ''on''" "map tolower ''true'' = ''true''"
  "map tolower ''off'' = ''off''" "map tolower ''false'' = ''false''"
  by (simp_all add: tolower_def)

lemma cstr_id: "\<forall>c \<in> set bytes. c \<noteq> CHR 0x00 \<Longrightarrow> cstr bytes = bytes"
  by (simp add: cstr_def takeWhile_eq_all_conv)

lemma strncmp_eq_take: "strncmp_eq a b n = (take n a = take n b)"
  by (induction a b n rule: strncmp_eq.induct) auto

text \<open>
  With a control topic that is terminated inside its 32-byte array (at most 31
  characters), as the console leaves it, the comparison over 32 bytes is exact: a message
  on any other topic leaves the whole state unchanged, and on the control topic the first 7
  bytes of the payload are read as a C string and lower-cased: \<open>on\<close>, \<open>true\<close> or \<open>1\<close> set
  the power flag, \<open>off\<close>, \<open>false\<close> or \<open>0\<close> clear it, anything else changes nothing.
\<close>

lemma MQTTCallback_terminated_topic:
  assumes "length (mqtt_control_topic (settings s)) < 32"
  shows "(topic \<noteq> mqtt_control_topic (settings s) \<longrightarrow> MQTTCallback topic payload s = s)
       \<and> (topic = mqtt_control_topic (settings s) \<longrightarrow>
            (map tolower (cstr (take 7 payload)) \<in> {''on'', ''true'', ''1''} \<longrightarrow>
               MQTTCallback topic payload s = s\<lparr>power_enable := True\<rparr>)
          \<and> (map tolower (cstr (take 7 payload)) \<in> {''off'', ''false'', ''0''} \<longrightarrow>
               MQTTCallback topic payload s = s\<lparr>power_enable := False\<rparr>)
          \<and> (map tolower (cstr (take 7 payload))
                 \<notin> {''on'', ''true'', ''1'', ''off'', ''false'', ''0''} \<longrightarrow>
               MQTTCallback topic payload s = s))"
proof -
  have t: "strncmp_eq topic (mqtt_control_topic (settings s)) 32
             = (topic = mqtt_control_topic (settings s))"
    using assms by (rule strncmp_eq_iff)
  have m: "take (min (length payload) 7) payload = take 7 payload"
    by (simp add: min_def)
  show ?thesis
    unfolding MQTTCallback_def t m Let_def strcasecmp_eq_def strcmp_eq_def lower_literal
    by (auto simp: lower_digit)
qed

text \<open>
  Claim C5. The claim has a message whose topic is not exactly the configured control
  topic leave the power flag unchanged. The web form of the access-point sketch breaks it.
  \<^verbatim>\<open>httpPOSTSettings\<close> stores a control topic of 32 characters without a terminator, and
  \<^verbatim>\<open>strncmp\<close> over 32 bytes then accepts every topic that starts with them: the message
  \<open>on\<close> on \<open>home/livingroom/floorlamp/switchstat/floorlamp\<close>, which is not the control
  topic, switches the power on. The console's write of the same value keeps 31 characters
  and the terminator, and after it the same message changes nothing.
\<close>

theorem MQTTCallback_unterminated_topic:
  "mqtt_control_topic (settings (httpPOSTSettings long_topic_form config_mode_AP))
     = ''home/livingroom/floorlamp/switch''
   \<and> length (mqtt_control_topic (settings (httpPOSTSettings long_topic_form config_mode_AP)))
       = 32
   \<and> mqtt_status_topic (settings (httpPOSTSettings long_topic_form config_mode_AP))
       = ''stat/floorlamp''
   \<and> ''home/livingroom/floorlamp/switchstat/floorlamp''
       \<noteq> mqtt_control_topic (settings (httpPOSTSettings long_topic_form config_mode_AP))
   \<and> \<not> power_enable (httpPOSTSettings long_topic_form config_mode_AP)
   \<and> MQTTCallback ''home/livingroom/floorlamp/switchstat/floorlamp'' ''on''
         (httpPOSTSettings long_topic_form config_mode_AP)
       = (httpPOSTSettings long_topic_form config_mode_AP)\<lparr>power_enable := True\<rparr>
   \<and> mqtt_control_topic
         (settings (snd (SettingsReadWriteHelper mqtt_control_topic
                           (\<lambda>v st. st\<lparr>mqtt_control_topic := v\<rparr>) 32
                           (Some ''home/livingroom/floorlamp/switch'') config_mode_AP)))
       = ''home/livingroom/floorlamp/switc''
   \<and> MQTTCallback ''home/livingroom/floorlamp/switchstat/floorlamp'' ''on''
         (snd (SettingsReadWriteHelper mqtt_control_topic
                 (\<lambda>v st. st\<lparr>mqtt_control_topic := v\<rparr>) 32
                 (Some ''home/livingroom/floorlamp/switch'') config_mode_AP))
       = snd (SettingsReadWriteHelper mqtt_control_topic
                (\<lambda>v st. st\<lparr>mqtt_control_topic := v\<rparr>) 32
                (Some ''home/livingroom/floorlamp/switch'') config_mode_AP)"
  by (simp add: httpPOSTSettings_def long_topic_form_def config_mode_AP_def fresh_device_AP_def
        setup_sketch_AP_def boot_device_def default_settings_def SETTINGS_HEADER_AP_def
        ButtonChangeISR_def elapsed_def DEBOUNCE_MILLIS_def SaveSettings_def emit_def cstr_def
        MQTTCallback_def strcasecmp_eq_def strcmp_eq_def tolower_def strncmp_eq_take
        SettingsReadWriteHelper_def Let_def)

section \<open>Loading the settings at startup\<close>

text \<open>
  Claim C9. \<^verbatim>\<open>setup\<close> of either sketch, from any state: when the header byte of the stored
  record differs from the sketch's \<^verbatim>\<open>SETTINGS_HEADER\<close> the settings stay as they are, which
  after boot are the compiled-in defaults; when it is equal the stored record replaces
  them. Either way \<^verbatim>\<open>setup\<close> goes on to configure the MQTT client: the only difference in
  the library calls is the line printed.
\<close>

theorem setup_loads_settings:
  "setup_sketch stored s =
     s\<lparr>settings := (if header stored = SETTINGS_HEADER then stored else settings s),
       trace := trace s @
         [PinModeInputPullup BUTTON_PIN, PinModeOutput POWER_PIN, PinModeOutput STATUS_LED,
          AttachInterruptChange BUTTON_PIN, SerialBegin 115200, EepromBegin, EepromGet,
          SerialPrintln (if header stored = SETTINGS_HEADER then ''Loaded valid settings.''
                         else ''Found invalid settings header; settings reset.''),
          MqttSetSocketTimeout 5, MqttSetCallback]\<rparr>
   \<and> setup_sketch_AP stored s =
     s\<lparr>settings := (if header stored = SETTINGS_HEADER_AP then stored else settings s),
       trace := trace s @
         [PinModeInputPullup BUTTON_PIN, PinModeOutput POWER_PIN, PinModeOutput STATUS_LED,
          AttachInterruptChange BUTTON_PIN, SerialBegin 115200, EepromBegin, EepromGet,
          SerialPrintln (if header stored = SETTINGS_HEADER_AP then ''Loaded valid settings.''
                         else ''Found invalid settings header; settings reset.''),
          MqttSetSocketTimeout 5, MqttSetCallback]\<rparr>
   \<and> settings (setup_sketch stored (boot_device SETTINGS_HEADER)) =
       (if header stored = SETTINGS_HEADER then stored else default_settings SETTINGS_HEADER)
   \<and> settings (setup_sketch_AP stored (boot_device SETTINGS_HEADER_AP)) =
       (if header stored = SETTINGS_HEADER_AP then stored
        else default_settings SETTINGS_HEADER_AP)"
  by (simp add: setup_sketch_def setup_sketch_AP_def emit_def boot_device_def)

text \<open>An erased flash (header byte \<open>0xFF\<close>) leaves the defaults; a record saved by the
  sketch is loaded; a record saved by the other sketch is not.\<close>

theorem setup_loads_settings_witness:
  "settings (setup_sketch ((default_settings 0xFF)\<lparr>device_name := ''junk''\<rparr>)
               (boot_device SETTINGS_HEADER)) = default_settings SETTINGS_HEADER
   \<and> settings (setup_sketch (settings configured_device) (boot_device SETTINGS_HEADER))
       = settings configured_device
   \<and> settings (setup_sketch_AP (settings configured_device) (boot_device SETTINGS_HEADER_AP))
       = default_settings SETTINGS_HEADER_AP"
  using setup_loads_settings [of "(default_settings 0xFF)\<lparr>device_name := ''junk''\<rparr>"]
        setup_loads_settings [of "settings configured_device"]
  by (simp add: default_settings_def configured_device_def boot_device_def
        SETTINGS_HEADER_def SETTINGS_HEADER_AP_def)

section \<open>The first token of a console line\<close>

lemma tokenSplit_blank:
  "(fst (tokenSplit (Some p)) = None) = (\<forall>c \<in> set p. isspace c)"
proof (cases "dropWhile isspace p")
  case Nil
  then have a: "\<forall>c \<in> set p. isspace c"
    by (simp add: dropWhile_eq_Nil_conv)
  show ?thesis
    by (simp add: tokenSplit_def Nil a)
next
  case (Cons c cs)
  then have "\<not> (\<forall>c \<in> set p. isspace c)"
    using dropWhile_eq_Nil_conv [of isspace p] by simp
  with Cons show ?thesis
    by (simp add: tokenSplit_def Let_def split: list.splits)
qed

text \<open>
  Claim C10 fails on the code: \<^verbatim>\<open>tokenSplit\<close> returns \<^verbatim>\<open>nullptr\<close> exactly for a line whose
  C string is empty or all white space, and \<^verbatim>\<open>PollBluetoothCommand\<close> hands that pointer to
  \<^verbatim>\<open>strcmp\<close>. The theorem says which lines do it; every other line is dispatched.
\<close>

theorem PollBluetoothCommand_blank_line:
  "(PollBluetoothCommand (Some input) mst wr s = Inl NullPointerDereference)
     = (\<forall>c \<in> set (cstr input). isspace c)"
proof -
  obtain cmd ptr where t: "tokenSplit (Some (cstr input)) = (cmd, ptr)"
    by (cases "tokenSplit (Some (cstr input))")
  have "(cmd = None) = (\<forall>c \<in> set (cstr input). isspace c)"
    using tokenSplit_blank [of "cstr input"] t by simp
  then show ?thesis
    by (cases cmd) (simp_all add: PollBluetoothCommand_def t)
qed

text \<open>The empty line, and the line a terminal leaves before the newline when it sends
  CR LF.\<close>

theorem PollBluetoothCommand_blank_line_witness:
  "PollBluetoothCommand (Some []) MQTT_DISCONNECTED no_wifi_report configured_device
     = Inl NullPointerDereference
   \<and> PollBluetoothCommand (Some [CHR 0x0D]) MQTT_DISCONNECTED no_wifi_report configured_device
     = Inl NullPointerDereference"
  using PollBluetoothCommand_blank_line [of "[]" MQTT_DISCONNECTED no_wifi_report configured_device]
        PollBluetoothCommand_blank_line [of "[CHR 0x0D]" MQTT_DISCONNECTED no_wifi_report configured_device]
  by (simp add: cstr_def isspace_def)

section \<open>The link supervisors\<close>

text \<open>What one call does, case by case. In each case the first three library calls, if
  any, are the diagnostic printed when the observed status has changed.\<close>

lemma EnsureWiFi_no_ssid:
  assumes "status \<noteq> WL_CONNECTED" and "wifi_ssid (settings s) = []"
  shows "EnsureWiFi status now s =
           (False, s\<lparr>wifi_last_status := status,
                     trace := trace s @
                       (if status \<noteq> wifi_last_status s
                        then [SerialPrint ''WiFi state changed to '',
                              SerialPrint (wifiStatusString status), SerialPrintln ''.'']
                        else [])\<rparr>)"
  using assms by (cases "status = wifi_last_status s") (simp_all add: EnsureWiFi_def emit_def Let_def)

lemma EnsureWiFi_wait:
  assumes "status \<noteq> WL_CONNECTED"
    and "wifi_last_try s \<noteq> 0" and "elapsed now (wifi_last_try s) < 60000"
  shows "EnsureWiFi status now s =
           (False, s\<lparr>wifi_last_status := status,
                     trace := trace s @
                       (if status \<noteq> wifi_last_status s
                        then [SerialPrint ''WiFi state changed to '',
                              SerialPrint (wifiStatusString status), SerialPrintln ''.'']
                        else [])\<rparr>)"
proof -
  have "\<not> 60000 \<le> elapsed now (wifi_last_try s)"
    using assms(3) by (simp add: not_le)
  with assms show ?thesis
    by (cases "status = wifi_last_status s") (simp_all add: EnsureWiFi_def emit_def Let_def)
qed

lemma EnsureWiFi_attempt:
  assumes "status \<noteq> WL_CONNECTED" and "wifi_ssid (settings s) \<noteq> []"
    and "wifi_last_try s = 0 \<or> 60000 \<le> elapsed now (wifi_last_try s)"
  shows "EnsureWiFi status now s =
           (False, s\<lparr>wifi_last_status := status, wifi_last_try := now,
                     trace := trace s @
                       (if status \<noteq> wifi_last_status s
                        then [SerialPrint ''WiFi state changed to '',
                              SerialPrint (wifiStatusString status), SerialPrintln ''.'']
                        else []) @
                       [SerialPrint ''Connecting to WiFi SSID '',
                        SerialPrint (wifi_ssid (settings s)), SerialPrintln ''.'',
                        WiFiSetHostname (device_name (settings s)),
                        WiFiBegin (wifi_ssid (settings s)) (wifi_password (settings s))]\<rparr>)"
proof -
  have g: "(wifi_last_try s = 0 \<or> 60000 \<le> elapsed now (wifi_last_try s)) = True"
    using assms(3) by simp
  show ?thesis
    using assms(1,2)
    by (cases "status = wifi_last_status s") (simp_all add: EnsureWiFi_def emit_def g Let_def)
qed

lemma EnsureMQTT_no_server:
  assumes "state \<noteq> MQTT_CONNECTED" and "mqtt_server (settings s) = []"
  shows "EnsureMQTT state success now s =
           (False, s\<lparr>mqtt_last_state := state,
                     trace := trace s @
                       (if state \<noteq> mqtt_last_state s
                        then [SerialPrint ''MQTT state changed to '',
                              SerialPrint (mqttStateString state), SerialPrintln ''.'']
                        else [])\<rparr>)"
  using assms by (cases "state = mqtt_last_state s") (simp_all add: EnsureMQTT_def emit_def Let_def)

lemma EnsureMQTT_wait:
  assumes "state \<noteq> MQTT_CONNECTED"
    and "mqtt_last_try s \<noteq> 0" and "elapsed now (mqtt_last_try s) < 60000"
  shows "EnsureMQTT state success now s =
           (False, s\<lparr>mqtt_last_state := state,
                     trace := trace s @
                       (if state \<noteq> mqtt_last_state s
                        then [SerialPrint ''MQTT state changed to '',
                              SerialPrint (mqttStateString state), SerialPrintln ''.'']
                        else [])\<rparr>)"
proof -
  have "\<not> 60000 \<le> elapsed now (mqtt_last_try s)"
    using assms(3) by (simp add: not_le)
  with assms show ?thesis
    by (cases "state = mqtt_last_state s") (simp_all add: EnsureMQTT_def emit_def Let_def)
qed

lemma EnsureMQTT_attempt:
  assumes "state \<noteq> MQTT_CONNECTED" and "mqtt_server (settings s) \<noteq> []"
    and "mqtt_last_try s = 0 \<or> 60000 \<le> elapsed now (mqtt_last_try s)"
  shows "EnsureMQTT state success now s =
           (success, s\<lparr>mqtt_last_state := state, mqtt_last_try := now,
                     trace := trace s @
                       (if state \<noteq> mqtt_last_state s
                        then [SerialPrint ''MQTT state changed to '',
                              SerialPrint (mqttStateString state), SerialPrintln ''.'']
                        else []) @
                       [SerialPrint ''Connecting to MQTT server '',
                        SerialPrint (mqtt_server (settings s)), SerialPrintln ''.'',
                        MqttSetServer (mqtt_server (settings s)) (mqtt_port (settings s)),
                        MqttConnect
                          (if mqtt_id (settings s) = [] then device_name (settings s)
                           else mqtt_id (settings s))
                          (if mqtt_user (settings s) = [] then None
                           else Some (mqtt_user (settings s), mqtt_password (settings s)))
                          (mqtt_status_topic (settings s)) 1 True ''OFFLINE''] @
                       (if success \<and> mqtt_control_topic (settings s) \<noteq> []
                        then [MqttSubscribe (mqtt_control_topic (settings s)) 1] else [])\<rparr>)"
proof -
  have g: "(mqtt_last_try s = 0 \<or> 60000 \<le> elapsed now (mqtt_last_try s)) = True"
    using assms(3) by simp
  show ?thesis
    using assms(1,2)
    by (cases "state = mqtt_last_state s"; cases "mqtt_user (settings s) = []";
        cases "success \<and> mqtt_control_topic (settings s) \<noteq> []")
       (simp_all add: EnsureMQTT_def emit_def g Let_def)
qed

lemma EnsureMQTT_connected:
  assumes "mqtt_last_state s \<noteq> MQTT_CONNECTED"
  shows "EnsureMQTT MQTT_CONNECTED success now s =
           (True, s\<lparr>mqtt_last_state := MQTT_CONNECTED,
                    trace := trace s @
                      [SerialPrint ''MQTT state changed to '', SerialPrint ''CONNECTED'',
                       SerialPrintln ''.''] @
                      (if mqtt_status_topic (settings s) = [] then []
                       else [MqttPublish (mqtt_status_topic (settings s))
                               (if power_enable s then ''ON'' else ''OFF'') True])\<rparr>)"
  using assms
  by (cases "mqtt_status_topic (settings s) = []")
     (simp_all add: EnsureMQTT_def Let_def PublishStatus_def emit_def)

lemma EnsureMQTT_still_connected:
  assumes "mqtt_last_state s = MQTT_CONNECTED"
  shows "EnsureMQTT MQTT_CONNECTED success now s = (True, s)"
  using assms by (simp add: EnsureMQTT_def)

text \<open>
  Claim C7, amended. With no endpoint configured and the link not connected, a call returns
  false, starts no connection attempt and leaves \<open>wifi_last_try\<close> (\<open>mqtt_last_try\<close>) alone.
  The rest of the state is unchanged except for the diagnostic: when the observed status
  differs from the one observed last, it is recorded and three lines are printed.
\<close>

theorem Ensure_without_endpoint:
  "(status \<noteq> WL_CONNECTED \<and> wifi_ssid (settings s) = [] \<longrightarrow>
      EnsureWiFi status now s =
        (False, s\<lparr>wifi_last_status := status,
                  trace := trace s @
                    (if status \<noteq> wifi_last_status s
                     then [SerialPrint ''WiFi state changed to '',
                           SerialPrint (wifiStatusString status), SerialPrintln ''.'']
                     else [])\<rparr>)
    \<and> wifi_last_try (snd (EnsureWiFi status now s)) = wifi_last_try s
    \<and> filter is_wifi_attempt (trace (snd (EnsureWiFi status now s)))
        = filter is_wifi_attempt (trace s))
 \<and> (state \<noteq> MQTT_CONNECTED \<and> mqtt_server (settings s) = [] \<longrightarrow>
      EnsureMQTT state success now s =
        (False, s\<lparr>mqtt_last_state := state,
                  trace := trace s @
                    (if state \<noteq> mqtt_last_state s
                     then [SerialPrint ''MQTT state changed to '',
                           SerialPrint (mqttStateString state), SerialPrintln ''.'']
                     else [])\<rparr>)
    \<and> mqtt_last_try (snd (EnsureMQTT state success now s)) = mqtt_last_try s
    \<and> filter is_mqtt_attempt (trace (snd (EnsureMQTT state success now s)))
        = filter is_mqtt_attempt (trace s))"
  by (simp add: EnsureWiFi_no_ssid EnsureMQTT_no_server)

text \<open>The booted device has neither endpoint: both calls return false and attempt nothing.\<close>

theorem Ensure_without_endpoint_witness:
  "fst (EnsureWiFi WL_DISCONNECTED 1000 (boot_device SETTINGS_HEADER)) = False
   \<and> wifi_last_try (snd (EnsureWiFi WL_DISCONNECTED 1000 (boot_device SETTINGS_HEADER))) = 0
   \<and> filter is_wifi_attempt
        (trace (snd (EnsureWiFi WL_DISCONNECTED 1000 (boot_device SETTINGS_HEADER)))) = []
   \<and> EnsureMQTT MQTT_DISCONNECTED True 1000 (boot_device SETTINGS_HEADER)
        = (False, boot_device SETTINGS_HEADER)"
  using Ensure_without_endpoint
          [of WL_DISCONNECTED "boot_device SETTINGS_HEADER" 1000 MQTT_DISCONNECTED True]
  by (simp add: boot_device_def default_settings_def)

text \<open>As stated, the claim has all supervisor state unchanged. The bus is connected and the
  console clears the broker address (\<open>mqtt-server -\<close>), which disconnects the client. The
  next call has no endpoint and is not connected; it sees \<^verbatim>\<open>MQTT_DISCONNECTED\<close> where
  \<^verbatim>\<open>last_state\<close> holds \<^verbatim>\<open>MQTT_CONNECTED\<close>, and records it.\<close>

theorem Ensure_without_endpoint_counterexample:
  "PollBluetoothCommand (Some ''mqtt-server -'') MQTT_CONNECTED no_wifi_report online_console
     = Inr server_cleared
   \<and> mqtt_server (settings server_cleared) = []
   \<and> MQTT_DISCONNECTED \<noteq> MQTT_CONNECTED
   \<and> mqtt_last_state server_cleared = MQTT_CONNECTED
   \<and> fst (EnsureMQTT MQTT_DISCONNECTED False 9000 server_cleared) = False
   \<and> mqtt_last_state (snd (EnsureMQTT MQTT_DISCONNECTED False 9000 server_cleared))
       = MQTT_DISCONNECTED
   \<and> snd (EnsureMQTT MQTT_DISCONNECTED False 9000 server_cleared) \<noteq> server_cleared"
proof -
  have p: "PollBluetoothCommand (Some ''mqtt-server -'') MQTT_CONNECTED no_wifi_report
             online_console = Inr server_cleared"
    by (simp add: PollBluetoothCommand_def PollBluetoothCommand_dispatch_def tokenSplit_def
          cstr_def isspace_def SettingsReadWriteHelper_def strcmp_eq_def SaveSettings_def
          RestartMQTT_def emit_def server_cleared_def online_console_def online_device_def
          configured_device_def boot_device_def)
  have c: "mqtt_server (settings server_cleared) = []"
    "mqtt_last_state server_cleared = MQTT_CONNECTED"
    by (simp_all add: server_cleared_def online_console_def online_device_def)
  have r: "EnsureMQTT MQTT_DISCONNECTED False 9000 server_cleared =
      (False, server_cleared
                \<lparr>mqtt_last_state := MQTT_DISCONNECTED,
                  trace := trace server_cleared @
                    [SerialPrint ''MQTT state changed to '', SerialPrint ''DISCONNECTED'',
                     SerialPrintln ''.'']\<rparr>)"
    using c by (simp add: EnsureMQTT_no_server)
  have "mqtt_last_state (snd (EnsureMQTT MQTT_DISCONNECTED False 9000 server_cleared))
          \<noteq> mqtt_last_state server_cleared"
    unfolding r using c by simp
  then have "snd (EnsureMQTT MQTT_DISCONNECTED False 9000 server_cleared) \<noteq> server_cleared"
    by metis
  with p c show ?thesis
    by (simp add: r)
qed

lemma EnsureWiFi_calls_wait:
  assumes "wifi_last_try s \<noteq> 0"
    and "\<forall>(status, now) \<in> set calls. status \<noteq> WL_CONNECTED \<and> elapsed now (wifi_last_try s) < 60000"
  shows "filter is_wifi_attempt (trace (EnsureWiFi_calls calls s)) = filter is_wifi_attempt (trace s)
       \<and> wifi_last_try (EnsureWiFi_calls calls s) = wifi_last_try s"
  using assms
proof (induction calls arbitrary: s)
  case Nil
  then show ?case by simp
next
  case (Cons c calls)
  obtain status now where c: "c = (status, now)" by (cases c)
  from Cons.prems c have w: "status \<noteq> WL_CONNECTED" "elapsed now (wifi_last_try s) < 60000"
    by simp_all
  note r = EnsureWiFi_wait [OF w(1) Cons.prems(1) w(2)]
  have t: "wifi_last_try (snd (EnsureWiFi status now s)) = wifi_last_try s"
    "filter is_wifi_attempt (trace (snd (EnsureWiFi status now s))) = filter is_wifi_attempt (trace s)"
    by (simp_all add: r)
  have "filter is_wifi_attempt (trace (EnsureWiFi_calls calls (snd (EnsureWiFi status now s))))
          = filter is_wifi_attempt (trace (snd (EnsureWiFi status now s)))
       \<and> wifi_last_try (EnsureWiFi_calls calls (snd (EnsureWiFi status now s)))
          = wifi_last_try (snd (EnsureWiFi status now s))"
    using Cons.prems by (intro Cons.IH) (simp_all add: t)
  then show ?case by (simp add: c t)
qed

lemma EnsureMQTT_calls_wait:
  assumes "mqtt_last_try s \<noteq> 0"
    and "\<forall>(state, success, now) \<in> set calls.
           state \<noteq> MQTT_CONNECTED \<and> elapsed now (mqtt_last_try s) < 60000"
  shows "filter is_mqtt_attempt (trace (EnsureMQTT_calls calls s)) = filter is_mqtt_attempt (trace s)
       \<and> mqtt_last_try (EnsureMQTT_calls calls s) = mqtt_last_try s"
  using assms
proof (induction calls arbitrary: s)
  case Nil
  then show ?case by simp
next
  case (Cons c calls)
  obtain state success now where c: "c = (state, success, now)" by (cases c)
  from Cons.prems c have w: "state \<noteq> MQTT_CONNECTED" "elapsed now (mqtt_last_try s) < 60000"
    by simp_all
  note r = EnsureMQTT_wait [OF w(1) Cons.prems(1) w(2), of success]
  have t: "mqtt_last_try (snd (EnsureMQTT state success now s)) = mqtt_last_try s"
    "filter is_mqtt_attempt (trace (snd (EnsureMQTT state success now s))) = filter is_mqtt_attempt (trace s)"
    by (simp_all add: r)
  have "filter is_mqtt_attempt (trace (EnsureMQTT_calls calls (snd (EnsureMQTT state success now s))))
          = filter is_mqtt_attempt (trace (snd (EnsureMQTT state success now s)))
       \<and> mqtt_last_try (EnsureMQTT_calls calls (snd (EnsureMQTT state success now s)))
          = mqtt_last_try (snd (EnsureMQTT state success now s))"
    using Cons.prems by (intro Cons.IH) (simp_all add: t)
  then show ?case by (simp add: c t)
qed

text \<open>
  Claim C6, amended. While the link is not connected and an endpoint is configured:
  a call with \<open>last_try \<noteq> 0\<close> and fewer than 60000 ms elapsed since \<open>last_try\<close> starts no
  attempt and changes nothing but the diagnostic; a call with \<open>last_try = 0\<close> or at least
  60000 ms elapsed starts exactly one attempt and records \<open>last_try = now\<close>; and after an
  attempt recorded at a \<open>now\<close> other than 0, no run of further calls, each fewer than
  60000 ms after it and with the link still not connected, starts another.
\<close>

theorem Ensure_retry_gate:
  "(status \<noteq> WL_CONNECTED \<and> wifi_ssid (settings s) \<noteq> [] \<longrightarrow>
      (wifi_last_try s \<noteq> 0 \<and> elapsed now (wifi_last_try s) < 60000 \<longrightarrow>
         EnsureWiFi status now s =
           (False, s\<lparr>wifi_last_status := status,
                     trace := trace s @
                       (if status \<noteq> wifi_last_status s
                        then [SerialPrint ''WiFi state changed to '',
                              SerialPrint (wifiStatusString status), SerialPrintln ''.'']
                        else [])\<rparr>))
    \<and> (wifi_last_try s = 0 \<or> 60000 \<le> elapsed now (wifi_last_try s) \<longrightarrow>
         fst (EnsureWiFi status now s) = False
       \<and> wifi_last_try (snd (EnsureWiFi status now s)) = now
       \<and> filter is_wifi_attempt (trace (snd (EnsureWiFi status now s))) =
           filter is_wifi_attempt (trace s)
             @ [WiFiBegin (wifi_ssid (settings s)) (wifi_password (settings s))]
       \<and> (now \<noteq> 0
            \<and> (\<forall>(status', now') \<in> set calls.
                  status' \<noteq> WL_CONNECTED \<and> elapsed now' now < 60000) \<longrightarrow>
            filter is_wifi_attempt
              (trace (EnsureWiFi_calls calls (snd (EnsureWiFi status now s)))) =
            filter is_wifi_attempt (trace s)
              @ [WiFiBegin (wifi_ssid (settings s)) (wifi_password (settings s))])))
 \<and> (state \<noteq> MQTT_CONNECTED \<and> mqtt_server (settings s) \<noteq> [] \<longrightarrow>
      (mqtt_last_try s \<noteq> 0 \<and> elapsed now (mqtt_last_try s) < 60000 \<longrightarrow>
         EnsureMQTT state success now s =
           (False, s\<lparr>mqtt_last_state := state,
                     trace := trace s @
                       (if state \<noteq> mqtt_last_state s
                        then [SerialPrint ''MQTT state changed to '',
                              SerialPrint (mqttStateString state), SerialPrintln ''.'']
                        else [])\<rparr>))
    \<and> (mqtt_last_try s = 0 \<or> 60000 \<le> elapsed now (mqtt_last_try s) \<longrightarrow>
         fst (EnsureMQTT state success now s) = success
       \<and> mqtt_last_try (snd (EnsureMQTT state success now s)) = now
       \<and> filter is_mqtt_attempt (trace (snd (EnsureMQTT state success now s))) =
           filter is_mqtt_attempt (trace s)
             @ [MqttConnect
                  (if mqtt_id (settings s) = [] then device_name (settings s)
                   else mqtt_id (settings s))
                  (if mqtt_user (settings s) = [] then None
                   else Some (mqtt_user (settings s), mqtt_password (settings s)))
                  (mqtt_status_topic (settings s)) 1 True ''OFFLINE'']
       \<and> (now \<noteq> 0
            \<and> (\<forall>(state', success', now') \<in> set mcalls.
                  state' \<noteq> MQTT_CONNECTED \<and> elapsed now' now < 60000) \<longrightarrow>
            filter is_mqtt_attempt
              (trace (EnsureMQTT_calls mcalls (snd (EnsureMQTT state success now s)))) =
            filter is_mqtt_attempt (trace s)
              @ [MqttConnect
                   (if mqtt_id (settings s) = [] then device_name (settings s)
                    else mqtt_id (settings s))
                   (if mqtt_user (settings s) = [] then None
                    else Some (mqtt_user (settings s), mqtt_password (settings s)))
                   (mqtt_status_topic (settings s)) 1 True ''OFFLINE''])))"
proof (intro conjI impI)
  assume "status \<noteq> WL_CONNECTED \<and> wifi_ssid (settings s) \<noteq> []"
    and "wifi_last_try s \<noteq> 0 \<and> elapsed now (wifi_last_try s) < 60000"
  then show "EnsureWiFi status now s =
           (False, s\<lparr>wifi_last_status := status,
                     trace := trace s @
                       (if status \<noteq> wifi_last_status s
                        then [SerialPrint ''WiFi state changed to '',
                              SerialPrint (wifiStatusString status), SerialPrintln ''.'']
                        else [])\<rparr>)"
    by (simp add: EnsureWiFi_wait)
next
  assume a: "status \<noteq> WL_CONNECTED \<and> wifi_ssid (settings s) \<noteq> []"
    and b: "wifi_last_try s = 0 \<or> 60000 \<le> elapsed now (wifi_last_try s)"
  note r = EnsureWiFi_attempt [OF conjunct1 [OF a] conjunct2 [OF a] b]
  show "fst (EnsureWiFi status now s) = False" by (simp add: r)
  show "wifi_last_try (snd (EnsureWiFi status now s)) = now" by (simp add: r)
  show "filter is_wifi_attempt (trace (snd (EnsureWiFi status now s))) =
           filter is_wifi_attempt (trace s)
             @ [WiFiBegin (wifi_ssid (settings s)) (wifi_password (settings s))]"
    by (simp add: r)
  assume c: "now \<noteq> 0
            \<and> (\<forall>(status', now') \<in> set calls.
                  status' \<noteq> WL_CONNECTED \<and> elapsed now' now < 60000)"
  define s1 where "s1 = snd (EnsureWiFi status now s)"
  have s1: "wifi_last_try s1 = now"
    "filter is_wifi_attempt (trace s1) = filter is_wifi_attempt (trace s)
       @ [WiFiBegin (wifi_ssid (settings s)) (wifi_password (settings s))]"
    by (simp_all add: s1_def r)
  have "filter is_wifi_attempt (trace (EnsureWiFi_calls calls s1))
          = filter is_wifi_attempt (trace s1)"
    using c s1(1) EnsureWiFi_calls_wait [of s1 calls] by simp
  then show "filter is_wifi_attempt
              (trace (EnsureWiFi_calls calls (snd (EnsureWiFi status now s)))) =
            filter is_wifi_attempt (trace s)
              @ [WiFiBegin (wifi_ssid (settings s)) (wifi_password (settings s))]"
    using s1(2) by (simp add: s1_def)
next
  assume "state \<noteq> MQTT_CONNECTED \<and> mqtt_server (settings s) \<noteq> []"
    and "mqtt_last_try s \<noteq> 0 \<and> elapsed now (mqtt_last_try s) < 60000"
  then show "EnsureMQTT state success now s =
           (False, s\<lparr>mqtt_last_state := state,
                     trace := trace s @
                       (if state \<noteq> mqtt_last_state s
                        then [SerialPrint ''MQTT state changed to '',
                              SerialPrint (mqttStateString state), SerialPrintln ''.'']
                        else [])\<rparr>)"
    by (simp add: EnsureMQTT_wait)
next
  assume a: "state \<noteq> MQTT_CONNECTED \<and> mqtt_server (settings s) \<noteq> []"
    and b: "mqtt_last_try s = 0 \<or> 60000 \<le> elapsed now (mqtt_last_try s)"
  note r = EnsureMQTT_attempt [OF conjunct1 [OF a] conjunct2 [OF a] b]
  show "fst (EnsureMQTT state success now s) = success" by (simp add: r)
  show "mqtt_last_try (snd (EnsureMQTT state success now s)) = now" by (simp add: r)
  show f: "filter is_mqtt_attempt (trace (snd (EnsureMQTT state success now s))) =
           filter is_mqtt_attempt (trace s)
             @ [MqttConnect
                  (if mqtt_id (settings s) = [] then device_name (settings s)
                   else mqtt_id (settings s))
                  (if mqtt_user (settings s) = [] then None
                   else Some (mqtt_user (settings s), mqtt_password (settings s)))
                  (mqtt_status_topic (settings s)) 1 True ''OFFLINE'']"
    by (simp add: r)
  assume c: "now \<noteq> 0
            \<and> (\<forall>(state', success', now') \<in> set mcalls.
                  state' \<noteq> MQTT_CONNECTED \<and> elapsed now' now < 60000)"
  define s1 where "s1 = snd (EnsureMQTT state success now s)"
  have s1: "mqtt_last_try s1 = now"
    by (simp add: s1_def r)
  have "filter is_mqtt_attempt (trace (EnsureMQTT_calls mcalls s1))
          = filter is_mqtt_attempt (trace s1)"
    using c s1 EnsureMQTT_calls_wait [of s1 mcalls] by simp
  then show "filter is_mqtt_attempt
              (trace (EnsureMQTT_calls mcalls (snd (EnsureMQTT state success now s)))) =
            filter is_mqtt_attempt (trace s)
              @ [MqttConnect
                   (if mqtt_id (settings s) = [] then device_name (settings s)
                    else mqtt_id (settings s))
                   (if mqtt_user (settings s) = [] then None
                    else Some (mqtt_user (settings s), mqtt_password (settings s)))
                   (mqtt_status_topic (settings s)) 1 True ''OFFLINE'']"
    using f by (simp add: s1_def)
qed

text \<open>On the configured device: the first call at 5000 ms attempts (\<open>last_try\<close> is 0), two
  calls up to 59999 ms later do not, a call 60000 ms later does; the same for the bus.\<close>

theorem Ensure_retry_gate_witness:
  "filter is_wifi_attempt (trace (snd (EnsureWiFi WL_DISCONNECTED 5000 configured_device)))
     = [WiFiBegin ''home'' ''secret'']
   \<and> filter is_wifi_attempt
        (trace (EnsureWiFi_calls [(WL_DISCONNECTED, 30000), (WL_IDLE_STATUS, 64999)]
                  (snd (EnsureWiFi WL_DISCONNECTED 5000 configured_device))))
     = [WiFiBegin ''home'' ''secret'']
   \<and> filter is_wifi_attempt
        (trace (snd (EnsureWiFi WL_DISCONNECTED 65000
                      (configured_device\<lparr>wifi_last_try := 5000\<rparr>))))
     = [WiFiBegin ''home'' ''secret'']
   \<and> EnsureWiFi WL_DISCONNECTED 64999
        (configured_device\<lparr>wifi_last_try := 5000, wifi_last_status := WL_DISCONNECTED\<rparr>)
     = (False, configured_device\<lparr>wifi_last_try := 5000, wifi_last_status := WL_DISCONNECTED\<rparr>)
   \<and> filter is_mqtt_attempt
        (trace (EnsureMQTT_calls [(MQTT_CONNECT_FAILED, False, 30000),
                                  (MQTT_CONNECT_FAILED, True, 64999)]
                  (snd (EnsureMQTT MQTT_DISCONNECTED False 5000 configured_device))))
     = [MqttConnect ''MQTTSwitch'' None ''sw/state'' 1 True ''OFFLINE'']
   \<and> mqtt_last_try (snd (EnsureMQTT MQTT_DISCONNECTED False 65000
                            (configured_device\<lparr>mqtt_last_try := 5000\<rparr>))) = 65000"
  using Ensure_retry_gate
          [of WL_DISCONNECTED configured_device 5000
              "[(WL_DISCONNECTED, 30000), (WL_IDLE_STATUS, 64999)]"
              MQTT_DISCONNECTED False
              "[(MQTT_CONNECT_FAILED, False, 30000), (MQTT_CONNECT_FAILED, True, 64999)]"]
        Ensure_retry_gate
          [of WL_DISCONNECTED "configured_device\<lparr>wifi_last_try := 5000\<rparr>" 65000
              "[]" MQTT_DISCONNECTED False "[]"]
        Ensure_retry_gate
          [of WL_DISCONNECTED
              "configured_device\<lparr>wifi_last_try := 5000, wifi_last_status := WL_DISCONNECTED\<rparr>"
              64999 "[]" MQTT_DISCONNECTED False "[]"]
        Ensure_retry_gate
          [of WL_DISCONNECTED "configured_device\<lparr>mqtt_last_try := 5000\<rparr>" 65000
              "[]" MQTT_DISCONNECTED False "[]"]
  by (simp add: configured_device_def boot_device_def default_settings_def elapsed_def)

text \<open>As stated, the claim allows one attempt per 60000 ms. The last attempt was made
  \<open>60000\<close> ms before the counter wraps to 0 and the link is still down: the call at
  \<open>now = 0\<close> retries, as it should, and records \<open>wifi_last_try = 0\<close>, which the call one
  millisecond later reads as "never attempted": two attempts within 1 ms.\<close>

theorem Ensure_retry_gate_counterexample:
  "elapsed 0 (wifi_last_try
                (configured_device\<lparr>wifi_last_status := WL_DISCONNECTED,
                                     wifi_last_try := 4294907296\<rparr>)) = 60000
   \<and> wifi_last_try
        (snd (EnsureWiFi WL_DISCONNECTED 0
               (configured_device\<lparr>wifi_last_status := WL_DISCONNECTED,
                                    wifi_last_try := 4294907296\<rparr>))) = 0
   \<and> elapsed 1 0 < 60000
   \<and> filter is_wifi_attempt
        (trace (snd (EnsureWiFi WL_DISCONNECTED 1
                      (snd (EnsureWiFi WL_DISCONNECTED 0
                             (configured_device\<lparr>wifi_last_status := WL_DISCONNECTED,
                                                  wifi_last_try := 4294907296\<rparr>))))))
     = [WiFiBegin ''home'' ''secret'', WiFiBegin ''home'' ''secret'']"
  by (simp add: EnsureWiFi_def emit_def configured_device_def boot_device_def
        default_settings_def elapsed_def)

section \<open>Frame lemmas\<close>

text \<open>Neither supervisor touches anything but its own three fields and the trace.\<close>

lemma EnsureWiFi_frame:
  "\<exists>t tr. snd (EnsureWiFi status now s)
            = s\<lparr>wifi_last_try := t, wifi_last_status := status, trace := tr\<rparr>"
proof (cases "status = WL_CONNECTED")
  case True
  have "snd (EnsureWiFi status now s) =
          s\<lparr>wifi_last_try := wifi_last_try s, wifi_last_status := status,
            trace := trace s @ (if status \<noteq> wifi_last_status s
                                then [SerialPrint ''WiFi state changed to '',
                                      SerialPrint (wifiStatusString status), SerialPrintln ''.'']
                                else [])\<rparr>"
    using True by (cases "status = wifi_last_status s") (simp_all add: EnsureWiFi_def emit_def)
  then show ?thesis by blast
next
  case nc: False
  show ?thesis
  proof (cases "wifi_ssid (settings s) = []")
    case True
    have "snd (EnsureWiFi status now s) =
          s\<lparr>wifi_last_try := wifi_last_try s, wifi_last_status := status,
            trace := trace s @ (if status \<noteq> wifi_last_status s
                                then [SerialPrint ''WiFi state changed to '',
                                      SerialPrint (wifiStatusString status), SerialPrintln ''.'']
                                else [])\<rparr>"
      by (simp add: EnsureWiFi_no_ssid [OF nc True])
    then show ?thesis by blast
  next
    case ssid: False
    show ?thesis
    proof (cases "wifi_last_try s = 0 \<or> 60000 \<le> elapsed now (wifi_last_try s)")
      case True
      have "snd (EnsureWiFi status now s) =
          s\<lparr>wifi_last_try := now, wifi_last_status := status,
            trace := trace (snd (EnsureWiFi status now s))\<rparr>"
        by (simp add: EnsureWiFi_attempt [OF nc ssid True])
      then show ?thesis by blast
    next
      case False
      then have w: "wifi_last_try s \<noteq> 0" "elapsed now (wifi_last_try s) < 60000"
        by (simp_all add: not_le)
      have "snd (EnsureWiFi status now s) =
          s\<lparr>wifi_last_try := wifi_last_try s, wifi_last_status := status,
            trace := trace s @ (if status \<noteq> wifi_last_status s
                                then [SerialPrint ''WiFi state changed to '',
                                      SerialPrint (wifiStatusString status), SerialPrintln ''.'']
                                else [])\<rparr>"
        by (simp add: EnsureWiFi_wait [OF nc w])
      then show ?thesis by blast
    qed
  qed
qed

lemma EnsureMQTT_frame:
  "\<exists>t tr. snd (EnsureMQTT state success now s)
            = s\<lparr>mqtt_last_try := t, mqtt_last_state := state, trace := tr\<rparr>"
proof (cases "state = MQTT_CONNECTED")
  case c: True
  show ?thesis
  proof (cases "mqtt_last_state s = MQTT_CONNECTED")
    case True
    have "snd (EnsureMQTT state success now s) =
            s\<lparr>mqtt_last_try := mqtt_last_try s, mqtt_last_state := state, trace := trace s\<rparr>"
      using True by (simp add: c EnsureMQTT_still_connected)
    then show ?thesis by blast
  next
    case False
    have "snd (EnsureMQTT state success now s) =
            s\<lparr>mqtt_last_try := mqtt_last_try s, mqtt_last_state := state,
              trace := trace s @
                      [SerialPrint ''MQTT state changed to '', SerialPrint ''CONNECTED'',
                       SerialPrintln ''.''] @
                      (if mqtt_status_topic (settings s) = [] then []
                       else [MqttPublish (mqtt_status_topic (settings s))
                               (if power_enable s then ''ON'' else ''OFF'') True])\<rparr>"
      by (simp add: c EnsureMQTT_connected [OF False])
    then show ?thesis by blast
  qed
next
  case nc: False
  show ?thesis
  proof (cases "mqtt_server (settings s) = []")
    case True
    have "snd (EnsureMQTT state success now s) =
          s\<lparr>mqtt_last_try := mqtt_last_try s, mqtt_last_state := state,
            trace := trace s @ (if state \<noteq> mqtt_last_state s
                                then [SerialPrint ''MQTT state changed to '',
                                      SerialPrint (mqttStateString state), SerialPrintln ''.'']
                                else [])\<rparr>"
      by (simp add: EnsureMQTT_no_server [OF nc True])
    then show ?thesis by blast
  next
    case server: False
    show ?thesis
    proof (cases "mqtt_last_try s = 0 \<or> 60000 \<le> elapsed now (mqtt_last_try s)")
      case True
      have "snd (EnsureMQTT state success now s) =
          s\<lparr>mqtt_last_try := now, mqtt_last_state := state,
            trace := trace (snd (EnsureMQTT state success now s))\<rparr>"
        by (simp add: EnsureMQTT_attempt [OF nc server True])
      then show ?thesis by blast
    next
      case False
      then have w: "mqtt_last_try s \<noteq> 0" "elapsed now (mqtt_last_try s) < 60000"
        by (simp_all add: not_le)
      have "snd (EnsureMQTT state success now s) =
          s\<lparr>mqtt_last_try := mqtt_last_try s, mqtt_last_state := state,
            trace := trace s @ (if state \<noteq> mqtt_last_state s
                                then [SerialPrint ''MQTT state changed to '',
                                      SerialPrint (mqttStateString state), SerialPrintln ''.'']
                                else [])\<rparr>"
        by (simp add: EnsureMQTT_wait [OF nc w])
      then show ?thesis by blast
    qed
  qed
qed

lemma Ensure_gate:
  "bluetooth_enable (snd (EnsureWiFi status now s)) = bluetooth_enable s"
  "bluetooth_enable (snd (EnsureMQTT state success now s)) = bluetooth_enable s"
proof -
  from EnsureWiFi_frame [of status now s] obtain t tr where
    "snd (EnsureWiFi status now s) = s\<lparr>wifi_last_try := t, wifi_last_status := status, trace := tr\<rparr>"
    by blast
  then show "bluetooth_enable (snd (EnsureWiFi status now s)) = bluetooth_enable s" by simp
  from EnsureMQTT_frame [of state success now s] obtain t tr where
    "snd (EnsureMQTT state success now s) = s\<lparr>mqtt_last_try := t, mqtt_last_state := state, trace := tr\<rparr>"
    by blast
  then show "bluetooth_enable (snd (EnsureMQTT state success now s)) = bluetooth_enable s" by simp
qed










lemma view_MQTTCallback:
  "pubs (MQTTCallback topic payload s) = pubs s"
  "last_power_enable (MQTTCallback topic payload s) = last_power_enable s"
  "bluetooth_enable (MQTTCallback topic payload s) = bluetooth_enable s"
  by (simp_all add: MQTTCallback_def Let_def pubs_def)

lemma view_mqtt_loop:
  "pubs (mqtt_loop inbound s) = pubs s
   \<and> last_power_enable (mqtt_loop inbound s) = last_power_enable s
   \<and> bluetooth_enable (mqtt_loop inbound s) = bluetooth_enable s"
proof -
  have "pubs (foldl (\<lambda>st (topic, payload). MQTTCallback topic payload st) s0 inbound) = pubs s0
      \<and> last_power_enable (foldl (\<lambda>st (topic, payload). MQTTCallback topic payload st) s0 inbound)
          = last_power_enable s0
      \<and> bluetooth_enable (foldl (\<lambda>st (topic, payload). MQTTCallback topic payload st) s0 inbound)
          = bluetooth_enable s0" for s0
    by (induction inbound arbitrary: s0) (simp_all add: view_MQTTCallback split_beta)
  then show ?thesis
    by (simp add: mqtt_loop_def pubs_def emit_def)
qed








section \<open>The console's idle timeout\<close>

lemma gate_emit:
  "bluetooth_enable (emit es s) = bluetooth_enable s"
  "bluetooth_enable_millis (emit es s) = bluetooth_enable_millis s"
  by (simp_all add: emit_def)

lemma gate_helper:
  "bluetooth_enable (snd (SettingsReadWriteHelper get put sz v s)) = bluetooth_enable s"
  "bluetooth_enable_millis (snd (SettingsReadWriteHelper get put sz v s))
     = bluetooth_enable_millis s"
  by (cases v; simp add: SettingsReadWriteHelper_def Let_def emit_def SaveSettings_def)+

lemma gate_basic:
  "bluetooth_enable (PrintHelp s) = bluetooth_enable s"
  "bluetooth_enable (SaveSettings s) = bluetooth_enable s"
  "bluetooth_enable (RestartMQTT s) = bluetooth_enable s"
  "bluetooth_enable (RestartWiFi s) = bluetooth_enable s"
  "bluetooth_enable_millis (PrintHelp s) = bluetooth_enable_millis s"
  "bluetooth_enable_millis (SaveSettings s) = bluetooth_enable_millis s"
  "bluetooth_enable_millis (RestartMQTT s) = bluetooth_enable_millis s"
  "bluetooth_enable_millis (RestartWiFi s) = bluetooth_enable_millis s"
  by (simp_all add: emit_def PrintHelp_def SaveSettings_def RestartMQTT_def RestartWiFi_def)

lemma gate_dispatch:
  "bluetooth_enable (PollBluetoothCommand_dispatch cmd ptr mst wr s) = bluetooth_enable s"
  "bluetooth_enable_millis (PollBluetoothCommand_dispatch cmd ptr mst wr s)
     = bluetooth_enable_millis s"
  by (simp_all add: PollBluetoothCommand_dispatch_def Let_def split_beta gate_emit gate_basic
        gate_helper split: option.splits)

lemma gate_Poll:
  assumes "PollBluetoothCommand line mst wr s = Inr s'"
  shows "bluetooth_enable s' = bluetooth_enable s"
    and "bluetooth_enable_millis s' = bluetooth_enable_millis s"
  using assms
  by (auto simp: PollBluetoothCommand_def gate_dispatch split: option.splits prod.splits)

lemma gate_links: "bluetooth_enable (loop_links env s) = bluetooth_enable s"
proof -
  obtain r1 s1 where w: "EnsureWiFi (wifi_status env) (t_wifi env) s = (r1, s1)"
    by (cases "EnsureWiFi (wifi_status env) (t_wifi env) s")
  obtain r2 s2 where
    m: "EnsureMQTT (mqtt_status env) (mqtt_connect_ok env) (t_mqtt env) s1 = (r2, s2)"
    by (cases "EnsureMQTT (mqtt_status env) (mqtt_connect_ok env) (t_mqtt env) s1")
  have "bluetooth_enable s1 = bluetooth_enable s"
    using Ensure_gate(1) [of "wifi_status env" "t_wifi env" s] w by simp
  moreover have "bluetooth_enable s2 = bluetooth_enable s1"
    using Ensure_gate(2) [of "mqtt_status env" "mqtt_connect_ok env" "t_mqtt env" s1] m by simp
  ultimately show ?thesis
    using view_mqtt_loop [of "mqtt_inbound env" s2]
    by (cases r1; cases r2) (simp_all add: loop_links_def w m)
qed

lemma gate_tail:
  "bluetooth_enable (loop_power (loop_blink now now_set (loop_links env s))) = bluetooth_enable s"
  by (simp add: loop_power_def loop_blink_def PublishStatus_def emit_def gate_links)

lemma client_idle_gate:
  "bluetooth_enable (loop_client_idle has_client now s) =
     (bluetooth_enable s \<and> (has_client \<or> elapsed now (bluetooth_enable_millis s) < 600000))"
  by (auto simp: loop_client_idle_def Let_def emit_def PrintHelp_def not_le)

lemma client_idle_AP_gate:
  "bluetooth_enable (loop_client_idle_AP has_client t_edge now s) =
     (bluetooth_enable s \<and>
      (has_client \<or> elapsed now (if last_bluetooth_has_client s then t_edge
                                  else bluetooth_disconnected_millis s) < 600000))"
  by (auto simp: loop_client_idle_AP_def Let_def emit_def PrintHelp_AP_def not_le)

lemma client_idle_AP_disconnected:
  "bluetooth_disconnected_millis (loop_client_idle_AP has_client t_edge now s) =
     (if last_bluetooth_has_client s \<and> \<not> has_client then t_edge
      else bluetooth_disconnected_millis s)"
  by (simp add: loop_client_idle_AP_def Let_def emit_def PrintHelp_AP_def)

lemma loop_gate:
  assumes l: "loop env s = Inr s'"
    and g: "bluetooth_enable s"
  shows "bluetooth_enable s' =
           (bt_has_client env \<or>
            elapsed (t_idle env)
              (if loop_entered s \<and> \<not> last_bluetooth_enable s then t_enable env
               else bluetooth_enable_millis s) < 600000)"
proof -
  define s0 where "s0 = (if loop_entered s then s
                else s\<lparr>loop_entered := True, last_power_enable := power_enable s,
                       last_bluetooth_enable := bluetooth_enable s\<rparr>)"
  define s1 where "s1 = loop_console_edge (t_enable env) s0"
  have e: "bluetooth_enable s1"
    "bluetooth_enable_millis s1 =
       (if loop_entered s \<and> \<not> last_bluetooth_enable s then t_enable env
        else bluetooth_enable_millis s)"
    using g by (simp_all add: s1_def s0_def loop_console_edge_def emit_def)
  from l e(1) obtain s2 where
    p: "PollBluetoothCommand (bt_line env) (cmd_mqtt_state env) (cmd_wifi env) s1 = Inr s2"
    and s': "s' = loop_power (loop_blink (t_blink env) (t_blink_set env)
                     (loop_links env (loop_client_idle (bt_has_client env) (t_idle env) s2)))"
    unfolding loop_def Let_def s0_def [symmetric] s1_def [symmetric]
    by (auto split: sum.splits)
  show ?thesis
    using gate_Poll [OF p] e by (simp add: s' gate_tail client_idle_gate)
qed

text \<open>The lemmas above say what each timeout test measures from: in \<^verbatim>\<open>MQTTSwitch.ino\<close>
  the time \<^verbatim>\<open>loop\<close> saw the console opened, whenever the client detached; in the
  access-point sketch the recorded time of the last disconnect, which is 0 until a client
  has detached. The run \<open>long_session\<close> ends in \<open>attached_console\<close>, and the next iteration
  finds the client gone.\<close>

lemmas session_defs =
  idle_env_def fresh_device_def setup_sketch_def boot_device_def default_settings_def
  SETTINGS_HEADER_def loop_def loop_console_edge_def PollBluetoothCommand_def
  loop_client_idle_def loop_links_def EnsureWiFi_def loop_blink_def loop_power_def emit_def
  PrintHelp_def ButtonChangeISR_def elapsed_def DEBOUNCE_MILLIS_def Let_def
  no_wifi_report_def

lemma long_session_run: "run long_session fresh_device = Inr attached_console"
  by (simp add: long_session_def attached_console_def session_defs)

lemma attached_console_detach:
  "loop (idle_env 640010 False) attached_console =
     Inr (attached_console
            \<lparr>bluetooth_enable := False, last_bluetooth_has_client := False,
              trace := trace attached_console @
                [SerialPrintln ''Bluetooth client disconnected.'',
                 SerialPrintln ''Bluetooth timeout.'']\<rparr>)"
  by (simp add: attached_console_def session_defs)

text \<open>
  Claim C3. The claim has the console stay open, with no client attached, until 600000 ms
  have elapsed since the last client disconnect. \<^verbatim>\<open>MQTTSwitch.ino\<close> measures from the
  opening of the console instead. In the run \<open>long_session\<close> the console is opened at
  7010 ms and a client is attached from 20000 ms on and still at 640000 ms; the iteration
  at 640010 ms, which finds the client gone, prints the disconnect line and closes the
  console in the same pass, at most 10 ms after the disconnect. The access-point sketch
  measures from the disconnect it has recorded, but the record starts at 0 and opening
  the console does not set it: with no client since boot, a console opened at 700000 ms is
  closed by the first timeout test.
\<close>

theorem console_closed_at_disconnect:
  "run long_session fresh_device = Inr attached_console
   \<and> bluetooth_enable attached_console
   \<and> last_bluetooth_has_client attached_console
   \<and> bluetooth_enable_millis attached_console = 7010
   \<and> loop (idle_env 640000 True) attached_console = Inr attached_console
   \<and> loop (idle_env 640010 False) attached_console =
       Inr (attached_console
              \<lparr>bluetooth_enable := False, last_bluetooth_has_client := False,
                trace := trace attached_console @
                  [SerialPrintln ''Bluetooth client disconnected.'',
                   SerialPrintln ''Bluetooth timeout.'']\<rparr>)
   \<and> elapsed 640010 640000 < 600000
   \<and> bluetooth_enable late_config_AP
   \<and> \<not> last_bluetooth_has_client late_config_AP
   \<and> bluetooth_disconnected_millis late_config_AP = 0
   \<and> loop_client_idle_AP False 700010 700010 late_config_AP =
       late_config_AP\<lparr>bluetooth_enable := False,
         trace := trace late_config_AP @ [SerialPrintln ''Config timeout.'']\<rparr>"
proof -
  have a: "bluetooth_enable attached_console" "last_bluetooth_has_client attached_console"
    "bluetooth_enable_millis attached_console = 7010"
    by (simp_all add: attached_console_def)
  have b: "loop (idle_env 640000 True) attached_console = Inr attached_console"
    by (simp add: attached_console_def session_defs)
  have c: "elapsed 640010 640000 < 600000"
    by (simp add: elapsed_def)
  have d: "bluetooth_enable late_config_AP" "\<not> last_bluetooth_has_client late_config_AP"
    "bluetooth_disconnected_millis late_config_AP = 0"
    "loop_client_idle_AP False 700010 700010 late_config_AP =
       late_config_AP\<lparr>bluetooth_enable := False,
         trace := trace late_config_AP @ [SerialPrintln ''Config timeout.'']\<rparr>"
    by (simp_all add: late_config_AP_def fresh_device_AP_def setup_sketch_AP_def
          boot_device_def default_settings_def SETTINGS_HEADER_AP_def ButtonChangeISR_def
          elapsed_def DEBOUNCE_MILLIS_def emit_def loop_client_idle_AP_def Let_def)
  show ?thesis
    using long_session_run attached_console_detach a b c d by simp
qed

section \<open>Writing and reading back a string setting\<close>

lemma tokenSplit_last:
  assumes "v \<noteq> []" and "\<forall>c \<in> set v. \<not> isspace c"
  shows "tokenSplit (Some v) = (Some v, None)"
proof -
  obtain c cs where v: "v = c # cs" using assms(1) by (cases v) auto
  have d: "dropWhile isspace v = v" using assms(2) v by simp
  have t: "takeWhile (\<lambda>x. \<not> isspace x) cs = cs" using assms(2) v by (simp add: takeWhile_eq_all_conv)
  have e: "dropWhile (\<lambda>x. \<not> isspace x) cs = []" using assms(2) v by simp
  show ?thesis
    unfolding tokenSplit_def by (simp add: d) (simp add: v t e)
qed

lemma tokenSplit_first:
  assumes "w \<noteq> []" and "\<forall>c \<in> set w. \<not> isspace c"
  shows "tokenSplit (Some (w @ CHR '' '' # rest)) = (Some w, Some rest)"
proof -
  obtain c cs where w: "w = c # cs" using assms(1) by (cases w) auto
  have sp: "isspace (CHR '' '')" by (simp add: isspace_def)
  have nc: "\<not> isspace c" using assms(2) w by simp
  have t: "takeWhile (\<lambda>x. \<not> isspace x) (cs @ CHR '' '' # rest) = cs"
    using assms(2) w sp by (simp add: takeWhile_tail takeWhile_eq_all_conv)
  have e: "dropWhile (\<lambda>x. \<not> isspace x) (cs @ CHR '' '' # rest) = CHR '' '' # rest"
    using assms(2) w sp by (simp add: dropWhile_append3)
  show ?thesis
    by (simp add: tokenSplit_def w nc t e)
qed

lemma helper_write:
  assumes "\<And>x st. get (put x st) = x"
  shows "get (settings (snd (SettingsReadWriteHelper get put sz (Some v) s)))
           = (if v = ''-'' then [] else take (sz - 1) v)"
    and "fst (SettingsReadWriteHelper get put sz (Some v) s) = True"
  using assms
  by (simp_all add: SettingsReadWriteHelper_def Let_def strcmp_eq_def emit_def SaveSettings_def)

lemma helper_read:
  "SettingsReadWriteHelper get put sz None s = (False, emit [BtPrintln (get (settings s))] s)"
  by (simp add: SettingsReadWriteHelper_def)

lemma settings_restart:
  "settings (RestartWiFi s) = settings s" "settings (RestartMQTT s) = settings s"
  "settings (emit es s) = settings s"
  by (simp_all add: RestartWiFi_def RestartMQTT_def emit_def)

lemma cmd_tokens:
  "\<forall>c \<in> set ''device-name''. \<not> isspace c \<and> c \<noteq> CHR 0x00"
  "\<forall>c \<in> set ''mqtt-server''. \<not> isspace c \<and> c \<noteq> CHR 0x00"
  "\<forall>c \<in> set ''mqtt-id''. \<not> isspace c \<and> c \<noteq> CHR 0x00"
  "\<forall>c \<in> set ''mqtt-control-topic''. \<not> isspace c \<and> c \<noteq> CHR 0x00"
  "\<forall>c \<in> set ''mqtt-status-topic''. \<not> isspace c \<and> c \<noteq> CHR 0x00"
  by (simp_all add: isspace_def)

lemma Poll_write:
  assumes n: "name \<noteq> []" "\<forall>c \<in> set name. \<not> isspace c \<and> c \<noteq> CHR 0x00"
    and v: "v \<noteq> []" "\<forall>c \<in> set v. \<not> isspace c \<and> c \<noteq> CHR 0x00"
  shows "PollBluetoothCommand (Some (name @ '' '' @ v)) mst wr s
           = Inr (PollBluetoothCommand_dispatch name (Some v) mst wr s)"
proof -
  have "cstr (name @ '' '' @ v) = name @ '' '' @ v"
    using n v by (intro cstr_id) auto
  moreover have "tokenSplit (Some (name @ CHR '' '' # v)) = (Some name, Some v)"
    using n by (intro tokenSplit_first) auto
  ultimately show ?thesis
    by (simp add: PollBluetoothCommand_def)
qed

lemma Poll_read:
  assumes n: "name \<noteq> []" "\<forall>c \<in> set name. \<not> isspace c \<and> c \<noteq> CHR 0x00"
  shows "PollBluetoothCommand (Some name) mst wr s
           = Inr (PollBluetoothCommand_dispatch name None mst wr s)"
proof -
  have "cstr name = name" using n by (intro cstr_id) auto
  moreover have "tokenSplit (Some name) = (Some name, None)"
    using n by (intro tokenSplit_last) auto
  ultimately show ?thesis
    by (simp add: PollBluetoothCommand_def)
qed

lemma tokenSplit_None: "tokenSplit None = (None, None)"
  by (simp add: tokenSplit_def)

lemma string_settings_cases:
  assumes "(name, get, sz) \<in> set string_settings"
  obtains "name = ''device-name''" "get = device_name" "sz = 32"
    | "name = ''mqtt-server''" "get = mqtt_server" "sz = 16"
    | "name = ''mqtt-id''" "get = mqtt_id" "sz = 16"
    | "name = ''mqtt-control-topic''" "get = mqtt_control_topic" "sz = 32"
    | "name = ''mqtt-status-topic''" "get = mqtt_status_topic" "sz = 32"
proof -
  from assms have "name = ''device-name'' \<and> get = device_name \<and> sz = 32
      \<or> name = ''mqtt-server'' \<and> get = mqtt_server \<and> sz = 16
      \<or> name = ''mqtt-id'' \<and> get = mqtt_id \<and> sz = 16
      \<or> name = ''mqtt-control-topic'' \<and> get = mqtt_control_topic \<and> sz = 32
      \<or> name = ''mqtt-status-topic'' \<and> get = mqtt_status_topic \<and> sz = 32"
    unfolding string_settings_def
    by (simp only: list.set insert_iff empty_iff prod.inject simp_thms)
  then show thesis
    by (elim disjE conjE) (rule that; assumption)+
qed

lemma dispatch_string_setting:
  assumes "(name, get, sz) \<in> set string_settings"
  shows "\<exists>put restart. (\<forall>x st. get (put x st) = x) \<and> (\<forall>st. settings (restart st) = settings st)
        \<and> (\<forall>ptr mst wr s. PollBluetoothCommand_dispatch name ptr mst wr s =
            (case SettingsReadWriteHelper get put sz (fst (tokenSplit ptr)) s of
               (changed, s1) \<Rightarrow> if changed then restart s1 else s1))"
  using assms
proof (cases rule: string_settings_cases)
    case 1
    show ?thesis
      by (rule exI [of _ "\<lambda>v st. st\<lparr>device_name := v\<rparr>"], rule exI [of _ RestartWiFi])
         (simp add: 1 PollBluetoothCommand_dispatch_def settings_restart)
  next
    case 2
    show ?thesis
      by (rule exI [of _ "\<lambda>v st. st\<lparr>mqtt_server := v\<rparr>"], rule exI [of _ RestartMQTT])
         (simp add: 2 PollBluetoothCommand_dispatch_def settings_restart)
  next
    case 3
    show ?thesis
      by (rule exI [of _ "\<lambda>v st. st\<lparr>mqtt_id := v\<rparr>"], rule exI [of _ RestartMQTT])
         (simp add: 3 PollBluetoothCommand_dispatch_def settings_restart)
  next
    case 4
    show ?thesis
      by (rule exI [of _ "\<lambda>v st. st\<lparr>mqtt_control_topic := v\<rparr>"], rule exI [of _ "emit [MqttDisconnect]"])
         (simp add: 4 PollBluetoothCommand_dispatch_def settings_restart)
  next
    case 5
    show ?thesis
      by (rule exI [of _ "\<lambda>v st. st\<lparr>mqtt_status_topic := v\<rparr>"], rule exI [of _ RestartMQTT])
         (simp add: 5 PollBluetoothCommand_dispatch_def settings_restart)
qed

lemma name_token:
  assumes "(name, get, sz) \<in> set string_settings"
  shows "name \<noteq> []" "\<forall>c \<in> set name. \<not> isspace c \<and> c \<noteq> CHR 0x00"
  using assms cmd_tokens by (cases rule: string_settings_cases; simp)+

text \<open>
  Claim C8, amended. For each of the five commands of \<open>string_settings\<close> and every token
  \<open>v\<close> (not empty, no white space, no NUL): the line "command v" is accepted and sets the
  field to the first \<open>sz - 1\<close> bytes of \<open>v\<close>, or to the empty string when \<open>v\<close> is \<open>-\<close>, and
  the line "command" then prints exactly that. So a value shorter than the field's array
  reads back unchanged; a longer one reads back cut to \<open>sz - 1\<close> bytes.
\<close>

theorem settings_round_trip:
  assumes f: "(name, get, sz) \<in> set string_settings"
    and v: "v \<noteq> []" "\<forall>c \<in> set v. \<not> isspace c \<and> c \<noteq> CHR 0x00"
  shows "\<exists>s1. PollBluetoothCommand (Some (name @ '' '' @ v)) mst wr s = Inr s1
             \<and> get (settings s1) = (if v = ''-'' then [] else take (sz - 1) v)
             \<and> PollBluetoothCommand (Some name) mst' wr' s1 =
                 Inr (emit [BtPrintln (if v = ''-'' then [] else take (sz - 1) v)] s1)
             \<and> (length v < sz \<and> v \<noteq> ''-'' \<longrightarrow>
                  PollBluetoothCommand (Some name) mst' wr' s1 = Inr (emit [BtPrintln v] s1))"
proof -
  from dispatch_string_setting [OF f] obtain put restart where
    gp: "\<And>x st. get (put x st) = x" and rs: "\<And>st. settings (restart st) = settings st"
    and d: "\<And>ptr mst wr s. PollBluetoothCommand_dispatch name ptr mst wr s =
            (case SettingsReadWriteHelper get put sz (fst (tokenSplit ptr)) s of
               (changed, s1) \<Rightarrow> if changed then restart s1 else s1)"
    by blast
  define s1 where "s1 = PollBluetoothCommand_dispatch name (Some v) mst wr s"
  have tv: "tokenSplit (Some v) = (Some v, None)"
    using v by (intro tokenSplit_last) auto
  have w: "PollBluetoothCommand (Some (name @ '' '' @ v)) mst wr s = Inr s1"
    unfolding s1_def using name_token [OF f] v by (rule Poll_write)
  have "s1 = restart (snd (SettingsReadWriteHelper get put sz (Some v) s))"
    unfolding s1_def d tv using helper_write(2) [of get put sz v s, OF gp]
    by (simp add: split_beta)
  then have g: "get (settings s1) = (if v = ''-'' then [] else take (sz - 1) v)"
    using helper_write(1) [of get put sz v s, OF gp] by (simp add: rs)
  have r: "PollBluetoothCommand (Some name) mst' wr' s1 = Inr (emit [BtPrintln (get (settings s1))] s1)"
    using name_token [OF f] by (simp add: Poll_read d tokenSplit_None helper_read)
  have "length v < sz \<and> v \<noteq> ''-'' \<longrightarrow> get (settings s1) = v"
    using g by auto
  with w g r show ?thesis by auto
qed


text \<open>\<open>mqtt-id relay7\<close> reads back as \<open>relay7\<close>, and \<open>device-name -\<close> as the empty
  string.\<close>

theorem settings_round_trip_witness:
  "(\<exists>s1. PollBluetoothCommand (Some ''mqtt-id relay7'') MQTT_DISCONNECTED no_wifi_report
            configured_device = Inr s1
         \<and> mqtt_id (settings s1) = ''relay7''
         \<and> PollBluetoothCommand (Some ''mqtt-id'') MQTT_DISCONNECTED no_wifi_report s1
             = Inr (emit [BtPrintln ''relay7''] s1))
   \<and> (\<exists>s1. PollBluetoothCommand (Some ''device-name -'') MQTT_DISCONNECTED no_wifi_report
              configured_device = Inr s1
         \<and> device_name (settings s1) = []
         \<and> PollBluetoothCommand (Some ''device-name'') MQTT_DISCONNECTED no_wifi_report s1
             = Inr (emit [BtPrintln []] s1))"
proof -
  have f: "(''mqtt-id'', mqtt_id, 16) \<in> set string_settings"
    "(''device-name'', device_name, 32) \<in> set string_settings"
    by (simp_all add: string_settings_def)
  have v: "''relay7'' \<noteq> []" "\<forall>c \<in> set ''relay7''. \<not> isspace c \<and> c \<noteq> CHR 0x00"
    "''-'' \<noteq> []" "\<forall>c \<in> set ''-''. \<not> isspace c \<and> c \<noteq> CHR 0x00"
    by (simp_all add: isspace_def)
  show ?thesis
    using settings_round_trip [OF f(1) v(1,2), of MQTT_DISCONNECTED no_wifi_report
            configured_device MQTT_DISCONNECTED no_wifi_report]
      settings_round_trip [OF f(2) v(3,4), of MQTT_DISCONNECTED no_wifi_report
            configured_device MQTT_DISCONNECTED no_wifi_report]
    by simp
qed

text \<open>As stated, the claim has every written value read back. The 16 characters of
  \<open>mqtt.example.com\<close> do not fit \<^verbatim>\<open>char mqtt_server[16]\<close> with its terminator: the line is
  accepted and the value reads back without its last character.\<close>

theorem settings_round_trip_counterexample:
  "PollBluetoothCommand (Some ''mqtt-server mqtt.example.com'') MQTT_DISCONNECTED no_wifi_report
     configured_device \<noteq> Inl NullPointerDereference
   \<and> mqtt_server (settings (projr (PollBluetoothCommand (Some ''mqtt-server mqtt.example.com'')
        MQTT_DISCONNECTED no_wifi_report configured_device))) = ''mqtt.example.co''
   \<and> PollBluetoothCommand (Some ''mqtt-server'') MQTT_DISCONNECTED no_wifi_report
       (projr (PollBluetoothCommand (Some ''mqtt-server mqtt.example.com'')
                 MQTT_DISCONNECTED no_wifi_report configured_device))
     = Inr (emit [BtPrintln ''mqtt.example.co'']
             (projr (PollBluetoothCommand (Some ''mqtt-server mqtt.example.com'')
                       MQTT_DISCONNECTED no_wifi_report configured_device)))
   \<and> ''mqtt.example.co'' \<noteq> ''mqtt.example.com''"
proof -
  have w: "PollBluetoothCommand (Some ''mqtt-server mqtt.example.com'') MQTT_DISCONNECTED
             no_wifi_report configured_device
           = Inr (PollBluetoothCommand_dispatch ''mqtt-server'' (Some ''mqtt.example.com'')
                    MQTT_DISCONNECTED no_wifi_report configured_device)"
    by (simp add: PollBluetoothCommand_def tokenSplit_def cstr_def isspace_def)
  have r: "PollBluetoothCommand (Some ''mqtt-server'') MQTT_DISCONNECTED no_wifi_report s1
           = Inr (emit [BtPrintln (mqtt_server (settings s1))] s1)" for s1
    by (simp add: PollBluetoothCommand_def PollBluetoothCommand_dispatch_def tokenSplit_def
          cstr_def isspace_def SettingsReadWriteHelper_def)
  have g: "mqtt_server (settings (PollBluetoothCommand_dispatch ''mqtt-server''
             (Some ''mqtt.example.com'') MQTT_DISCONNECTED no_wifi_report configured_device))
           = ''mqtt.example.co''"
    by (simp add: PollBluetoothCommand_dispatch_def tokenSplit_def isspace_def
          SettingsReadWriteHelper_def strcmp_eq_def SaveSettings_def RestartMQTT_def emit_def)
  show ?thesis
    by (simp add: w r g)
qed

end
